theory Spec2Isabelle
  imports Complex_Main
begin

section \<open>Data model\<close>

text \<open>
  A shallow embedding of \<^verbatim>\<open>round_3.py\<close>. Python's unbounded integers are \<open>int\<close>.
  Python's floats are reals. The regression of \<^verbatim>\<open>LinearRegressionMM\<close> rounds every
  operation to the nearest double (see \<open>fl\<close> below); the rest of the arithmetic, the
  VWAPs, edges and quote prices, is exact. Infinities and NaN are outside the model.
  Every exception the code can raise is a value of \<open>exception\<close>,
  returned as \<open>Inl\<close>. Dictionaries whose iteration order the code relies on (the two
  sides of an order book, the result map) are association lists in insertion order.
\<close>

datatype exception =
  KeyError | ValueError | ZeroDivisionError | IndexError | StatisticsError | JSONDecodeError

definition ebind :: "exception + 'a \<Rightarrow> ('a \<Rightarrow> exception + 'b) \<Rightarrow> exception + 'b" where
  "ebind m f = (case m of Inl e \<Rightarrow> Inl e | Inr x \<Rightarrow> f x)"

text \<open>The classes of the host's \<^verbatim>\<open>datamodel\<close> module that the code reads.\<close>

datatype Order = Order (order_symbol: string) (order_price: int) (order_quantity: int)

record OrderDepth =
  buy_orders :: "(int \<times> int) list"
  sell_orders :: "(int \<times> int) list"

record ConversionObservation =
  bidPrice :: real
  askPrice :: real
  transportFees :: real
  exportTariff :: real
  importTariff :: real
  obs_sunlight :: real
  obs_humidity :: real

record TradingState =
  traderData :: string
  state_timestamp :: int
  order_depths :: "string \<rightharpoonup> OrderDepth"
  state_position :: "string \<rightharpoonup> int"
  conversionObservations :: "string \<rightharpoonup> ConversionObservation"

text \<open>Entries of \<^verbatim>\<open>Trader.config\<close>; a key that an entry lacks is \<open>None\<close>.\<close>

record product_config =
  SYMBOL :: string
  PRODUCT :: string
  POSITION_LIMIT :: int
  COST_STORING :: "real option"
  PER_BASKET :: "int option"

record mm_config =
  FAIR_VALUE :: real
  SL_INVENTORY :: int
  SL_SPREAD :: int
  MM_SPREAD :: real
  ORDER_SKEW :: real

record lr_config = mm_config +
  MIN_WINDOW_SIZE :: int
  MAX_WINDOW_SIZE :: int
  PREDICT_SHIFT :: int

record otc_config =
  EXP_STORAGE_TIME :: real
  MIN_EDGE :: real
  MM_EDGE :: real

record basket_config = mm_config +
  PREMIUM_MEAN :: real
  PREMIUM_STD :: real
  LINEAR_SENSITIVITY :: real
  QUADRATIC_SENSITIVITY :: real
  SL_TARGET :: int
  CARRY :: real

section \<open>Python built-ins\<close>

fun py_max :: "'a::linorder list \<Rightarrow> exception + 'a" where
  "py_max [] = Inl ValueError"
| "py_max (x # xs) = Inr (fold max xs x)"

fun py_min :: "'a::linorder list \<Rightarrow> exception + 'a" where
  "py_min [] = Inl ValueError"
| "py_min (x # xs) = Inr (fold min xs x)"

definition truediv :: "real \<Rightarrow> real \<Rightarrow> exception + real" where
  "truediv a b = (if b = 0 then Inl ZeroDivisionError else Inr (a / b))"

definition getitem :: "('k \<times> 'v) list \<Rightarrow> 'k \<Rightarrow> exception + 'v" where
  "getitem d k = (case map_of d k of None \<Rightarrow> Inl KeyError | Some v \<Rightarrow> Inr v)"

fun emap :: "('a \<Rightarrow> exception + 'b) \<Rightarrow> 'a list \<Rightarrow> exception + 'b list" where
  "emap f [] = Inr []"
| "emap f (x # xs) =
     (case f x of Inl e \<Rightarrow> Inl e
      | Inr y \<Rightarrow> (case emap f xs of Inl e \<Rightarrow> Inl e | Inr ys \<Rightarrow> Inr (y # ys)))"

text \<open>\<^verbatim>\<open>int(x)\<close> on a float truncates toward zero.\<close>

definition py_int :: "real \<Rightarrow> int" where
  "py_int x = (if 0 \<le> x then \<lfloor>x\<rfloor> else \<lceil>x\<rceil>)"

text \<open>
  A Python float is an IEEE 754 double. \<open>fl x\<close> is the double nearest to the real \<open>x\<close>:
  the significand has 53 bits and a tie goes to the even significand; \<open>binade x\<close> is the
  exponent of the power of two at or below \<open>x\<close>, found by halving and doubling. The
  exponent range is not bounded, prices and timestamps being far from overflow and
  underflow. An operation on floats returns \<open>fl\<close> of the exact result, and \<^verbatim>\<open>math.fsum\<close>
  returns the correctly rounded sum. A Python \<^verbatim>\<open>int\<close> that meets a float is converted
  first; the conversion is exact below \<open>2 ^ 53\<close> and is taken to be exact.
\<close>

function binade :: "real \<Rightarrow> int" where
  "binade x = (if x \<le> 0 then 0
               else if 2 \<le> x then binade (x / 2) + 1
               else if x < 1 then binade (x * 2) - 1
               else 0)"
  by pat_completeness auto
termination
proof (relation "measure (\<lambda>x. nat \<bar>\<lfloor>log 2 x\<rfloor>\<bar>)")
  show "wf (measure (\<lambda>x. nat \<bar>\<lfloor>log 2 x\<rfloor>\<bar>))" by simp
next
  fix x :: real
  assume "\<not> x \<le> 0" "2 \<le> x"
  then have "log 2 (x / 2) = log 2 x - 1" "1 \<le> log 2 x"
    by (simp_all add: log_divide le_log_iff)
  then have "\<lfloor>log 2 (x / 2)\<rfloor> = \<lfloor>log 2 x\<rfloor> - 1" "1 \<le> \<lfloor>log 2 x\<rfloor>"
    by (simp_all add: le_floor_iff)
  then show "(x / 2, x) \<in> measure (\<lambda>x. nat \<bar>\<lfloor>log 2 x\<rfloor>\<bar>)" by simp
next
  fix x :: real
  assume "\<not> x \<le> 0" "\<not> 2 \<le> x" "x < 1"
  then have "log 2 (x * 2) = log 2 x + 1" "log 2 x < 0"
    by (simp_all add: log_mult)
  then have "\<lfloor>log 2 (x * 2)\<rfloor> = \<lfloor>log 2 x\<rfloor> + 1" "\<lfloor>log 2 x\<rfloor> \<le> - 1"
    by (simp_all add: floor_le_iff)
  then show "(x * 2, x) \<in> measure (\<lambda>x. nat \<bar>\<lfloor>log 2 x\<rfloor>\<bar>)" by simp
qed

declare binade.simps [simp del]

definition round_half_even :: "real \<Rightarrow> int" where
  "round_half_even r =
     (let f = \<lfloor>r\<rfloor> in
      if r - real_of_int f < 1 / 2 then f
      else if 1 / 2 < r - real_of_int f then f + 1
      else if even f then f else f + 1)"

definition fl :: "real \<Rightarrow> real" where
  "fl x = (if x = 0 then 0
           else let e = binade \<bar>x\<bar> - 52
                in real_of_int (round_half_even (x / 2 powi e)) * 2 powi e)"

definition fsum :: "real list \<Rightarrow> real" where
  "fsum xs = fl (sum_list xs)"

section \<open>Strategy\<close>

record Strategy =
  symbol :: string
  product :: string
  position_limit :: int
  timestamp :: int
  position :: int
  bids :: "(int \<times> int) list"
  asks :: "(int \<times> int) list"
  best_bid :: int
  best_ask :: int
  worst_bid :: int
  worst_ask :: int
  bid_volume :: int
  ask_volume :: int
  bid_sweep :: int
  ask_sweep :: int
  bid_vwap :: real
  ask_vwap :: real
  mid_vwap :: real
  orders :: "Order list"
  expected_position :: int
  sum_buy_qty :: int
  sum_sell_qty :: int

definition Strategy_init :: "TradingState \<Rightarrow> product_config \<Rightarrow> exception + Strategy" where
  "Strategy_init state pc =
    (let pos = (case state_position state (PRODUCT pc) of None \<Rightarrow> 0 | Some p \<Rightarrow> p) in
     case order_depths state (SYMBOL pc) of
       None \<Rightarrow> Inl KeyError
     | Some od \<Rightarrow>
        (let bs = buy_orders od; as = sell_orders od in
         ebind (py_max (map fst bs)) (\<lambda>bb.
         ebind (py_min (map fst as)) (\<lambda>ba.
         ebind (py_min (map fst bs)) (\<lambda>wb.
         ebind (py_max (map fst as)) (\<lambda>wa.
         let bv = sum_list (map snd bs);
             av = sum_list (map snd as);
             bsw = sum_list (map (\<lambda>(p, q). p * q) bs);
             asw = sum_list (map (\<lambda>(p, q). p * q) as) in
         ebind (truediv (real_of_int bsw) (real_of_int bv)) (\<lambda>bvw.
         ebind (truediv (real_of_int asw) (real_of_int av)) (\<lambda>avw.
         Inr \<lparr> symbol = SYMBOL pc, product = PRODUCT pc,
               position_limit = POSITION_LIMIT pc,
               timestamp = state_timestamp state, position = pos,
               bids = bs, asks = as,
               best_bid = bb, best_ask = ba, worst_bid = wb, worst_ask = wa,
               bid_volume = bv, ask_volume = av, bid_sweep = bsw, ask_sweep = asw,
               bid_vwap = bvw, ask_vwap = avw, mid_vwap = (bvw + avw) / 2,
               orders = [], expected_position = pos,
               sum_buy_qty = 0, sum_sell_qty = 0 \<rparr>))))))))"

section \<open>MarketMaking\<close>

record MarketMaking = Strategy +
  fair_value :: real
  sl_inventory :: int
  sl_spread :: int
  mm_spread :: real
  order_skew :: real

definition MarketMaking_init ::
  "TradingState \<Rightarrow> product_config \<Rightarrow> 'a mm_config_scheme \<Rightarrow> exception + MarketMaking" where
  "MarketMaking_init state pc sc =
     ebind (Strategy_init state pc) (\<lambda>s.
       Inr (Strategy.extend s
         (MarketMaking.fields (FAIR_VALUE sc) (SL_INVENTORY sc) (SL_SPREAD sc)
            (MM_SPREAD sc) (ORDER_SKEW sc))))"

text \<open>
  \<^verbatim>\<open>scratch_under_valued(mid_vwap)\<close>: the only statement that can raise is the lookup
  \<^verbatim>\<open>self.bids[self.best_bid]\<close> (respectively the ask one).
\<close>

definition scratch_under_valued ::
  "bool \<Rightarrow> 'a MarketMaking_scheme \<Rightarrow> exception + 'a MarketMaking_scheme" where
  "scratch_under_valued use_mid_vwap s =
    (let reserve_price = (if use_mid_vwap then mid_vwap s else fair_value s) in
     if - sl_inventory s \<le> position s \<and> position s \<le> sl_inventory s then
       if reserve_price \<le> real_of_int (best_bid s) \<and> 2 \<le> length (bids s) then
         ebind (getitem (bids s) (best_bid s)) (\<lambda>q.
           let order_quantity = min (max (- q) (- position_limit s - min (position s) 0)) 0 in
           Inr (s\<lparr> orders := orders s @ [Order (symbol s) (best_bid s) order_quantity],
                   expected_position := expected_position s + order_quantity,
                   sum_sell_qty := sum_sell_qty s + order_quantity \<rparr>))
       else if real_of_int (best_ask s) \<le> reserve_price \<and> 2 \<le> length (asks s) then
         ebind (getitem (asks s) (best_ask s)) (\<lambda>q.
           let order_quantity = max (min (- q) (position_limit s - max (position s) 0)) 0 in
           Inr (s\<lparr> orders := orders s @ [Order (symbol s) (best_ask s) order_quantity],
                   expected_position := expected_position s + order_quantity,
                   sum_buy_qty := sum_buy_qty s + order_quantity \<rparr>))
       else Inr s
     else Inr s)"

definition stop_loss ::
  "bool \<Rightarrow> 'a MarketMaking_scheme \<Rightarrow> exception + 'a MarketMaking_scheme" where
  "stop_loss ignore_worst s =
    (if sl_inventory s < position s
        \<and> fair_value s - real_of_int (sl_spread s) \<le> real_of_int (best_bid s) then
       if (if ignore_worst then 1 else 0) + 1 \<le> length (bids s) then
         ebind (getitem (bids s) (best_bid s)) (\<lambda>q.
           let order_quantity = max (- q) (- position s + sl_inventory s) in
           Inr (s\<lparr> orders := orders s @ [Order (symbol s) (best_bid s) order_quantity],
                   expected_position := expected_position s + order_quantity,
                   sum_sell_qty := sum_sell_qty s + order_quantity \<rparr>))
       else Inr s
     else if position s < - sl_inventory s
        \<and> real_of_int (best_ask s) \<le> fair_value s + real_of_int (sl_spread s) then
       if (if ignore_worst then 1 else 0) + 1 \<le> length (asks s) then
         ebind (getitem (asks s) (best_ask s)) (\<lambda>q.
           let order_quantity = min (- q) (- position s - sl_inventory s) in
           Inr (s\<lparr> orders := orders s @ [Order (symbol s) (best_ask s) order_quantity],
                   expected_position := expected_position s + order_quantity,
                   sum_buy_qty := sum_buy_qty s + order_quantity \<rparr>))
       else Inr s
     else Inr s)"

text \<open>The four-way bounds shared by both \<^verbatim>\<open>market_make\<close> methods.\<close>

definition bid_limit_of :: "'a Strategy_scheme \<Rightarrow> int" where
  "bid_limit_of s =
     max (min (position_limit s)
            (min (position_limit s - position s)
            (min (position_limit s - expected_position s)
                 (position_limit s - sum_buy_qty s - position s)))) 0"

definition ask_limit_of :: "'a Strategy_scheme \<Rightarrow> int" where
  "ask_limit_of s =
     min (max (- position_limit s)
            (max (- position_limit s - position s)
            (max (- position_limit s - expected_position s)
                 (- position_limit s - sum_sell_qty s - position s)))) 0"

definition market_make :: "'a MarketMaking_scheme \<Rightarrow> 'a MarketMaking_scheme" where
  "market_make s =
    (let bid_limit = bid_limit_of s;
         ask_limit = ask_limit_of s;
         bid_skew = \<lceil>order_skew s * real_of_int (max (expected_position s) 0)\<rceil>;
         ask_skew = \<lfloor>order_skew s * real_of_int (min (expected_position s) 0)\<rfloor>;
         bid_quantity = min (max (bid_limit - bid_skew) 0) bid_limit;
         ask_quantity = max (min (ask_limit - ask_skew) 0) ask_limit;
         bid_price = \<lceil>fair_value s - mm_spread s\<rceil>;
         ask_price = \<lfloor>fair_value s + mm_spread s\<rfloor>
     in s\<lparr> orders := orders s @ [Order (symbol s) bid_price bid_quantity,
                                   Order (symbol s) ask_price ask_quantity] \<rparr>)"

definition aggregate_orders ::
  "bool \<Rightarrow> 'a MarketMaking_scheme \<Rightarrow> exception + 'a MarketMaking_scheme" where
  "aggregate_orders ignore_worst_sl s =
     ebind (scratch_under_valued False s) (\<lambda>s1.
     ebind (stop_loss ignore_worst_sl s1) (\<lambda>s2.
     Inr (market_make s2)))"

section \<open>LinearRegressionMM\<close>

record LinearRegressionMM = MarketMaking +
  min_window_size :: int
  max_window_size :: int
  predict_shift :: int

definition LinearRegressionMM_init ::
  "TradingState \<Rightarrow> product_config \<Rightarrow> 'a lr_config_scheme \<Rightarrow> exception + LinearRegressionMM" where
  "LinearRegressionMM_init state pc sc =
     ebind (MarketMaking_init state pc sc) (\<lambda>s.
       Inr (MarketMaking.extend s
         (LinearRegressionMM.fields (MIN_WINDOW_SIZE sc) (MAX_WINDOW_SIZE sc) (PREDICT_SHIFT sc))))"

text \<open>
  \<^verbatim>\<open>statistics.linear_regression(x, y)\<close> of the standard library, as CPython 3.11 has it:

  \<^verbatim>\<open>xbar = fsum(x) / n\<close>, \<^verbatim>\<open>ybar = fsum(y) / n\<close>,
  \<^verbatim>\<open>sxy = fsum((xi - xbar) * (yi - ybar) for xi, yi in zip(x, y))\<close>,
  \<^verbatim>\<open>sxx = fsum((d := xi - xbar) * d for xi in x)\<close>,
  \<^verbatim>\<open>slope = sxy / sxx\<close>, \<^verbatim>\<open>intercept = ybar - slope * xbar\<close>.

  It raises \<^verbatim>\<open>StatisticsError\<close> when the lengths differ, when there are fewer than two
  points and when \<^verbatim>\<open>sxx\<close> is zero.
\<close>

definition linear_regression :: "real list \<Rightarrow> real list \<Rightarrow> exception + real \<times> real" where
  "linear_regression x y =
    (let n = length x in
     if length y \<noteq> n then Inl StatisticsError
     else if n < 2 then Inl StatisticsError
     else
       let xbar = fl (fsum x / real n);
           ybar = fl (fsum y / real n);
           sxy = fsum (map (\<lambda>(xi, yi). fl (fl (xi - xbar) * fl (yi - ybar))) (zip x y));
           sxx = fsum (map (\<lambda>xi. let d = fl (xi - xbar) in fl (d * d)) x)
       in if sxx = 0 then Inl StatisticsError
          else let slope = fl (sxy / sxx) in Inr (slope, fl (ybar - fl (slope * xbar))))"

definition predict_price ::
  "real list \<Rightarrow> 'a LinearRegressionMM_scheme \<Rightarrow> exception + 'a LinearRegressionMM_scheme" where
  "predict_price price_history s =
    (let n = int (length price_history) in
     if min_window_size s \<le> n then
       let t = py_int (fl (real_of_int (timestamp s) / 100));
           xs = map (\<lambda>i. real_of_int (100 * i)) [t - n + 1 .. t];
           ys = price_history
       in ebind (linear_regression xs ys) (\<lambda>(slope, intercept).
            let y_hat = fl (fl (slope * real_of_int (timestamp s + 100 * predict_shift s))
                            + intercept)
            in Inr (s\<lparr> fair_value := y_hat \<rparr>))
     else Inr (s\<lparr> fair_value := mid_vwap s \<rparr>))"



section \<open>OTCArbitrage\<close>

record OTCArbitrage = Strategy +
  unit_cost_storing :: real
  observation :: ConversionObservation
  otc_bid :: real
  otc_ask :: real
  cost_import :: real
  cost_export :: real
  sunlight :: real
  humidity :: real
  conversions :: int
  expected_storage_time :: real
  effective_cost_export :: real
  min_edge :: real
  mm_edge :: real

definition OTCArbitrage_init ::
  "TradingState \<Rightarrow> product_config \<Rightarrow> otc_config \<Rightarrow> exception + OTCArbitrage" where
  "OTCArbitrage_init state pc sc =
     ebind (Strategy_init state pc) (\<lambda>s.
       case COST_STORING pc of
         None \<Rightarrow> Inl KeyError
       | Some ucs \<Rightarrow>
          (case conversionObservations state (symbol s) of
             None \<Rightarrow> Inl KeyError
           | Some ob \<Rightarrow>
              (let ci = transportFees ob + importTariff ob;
                   ce = transportFees ob + exportTariff ob
               in Inr (Strategy.extend s
                    (OTCArbitrage.fields ucs ob (bidPrice ob) (askPrice ob) ci ce
                       (obs_sunlight ob) (obs_humidity ob) 0 (EXP_STORAGE_TIME sc)
                       (ce + EXP_STORAGE_TIME sc * ucs) (MIN_EDGE sc) (MM_EDGE sc))))))"

datatype arb_side = Long | Short

text \<open>The two \<^verbatim>\<open>for\<close> loops of \<^verbatim>\<open>arbitrage_exchange_enter\<close>, leaving at \<^verbatim>\<open>break\<close>.\<close>

fun long_arbitrage_loop ::
  "(int \<times> int) list \<Rightarrow> 'a OTCArbitrage_scheme \<Rightarrow> 'a OTCArbitrage_scheme" where
  "long_arbitrage_loop [] s = s"
| "long_arbitrage_loop ((price, quantity) # rest) s =
    (if min_edge s \<le> otc_bid s - real_of_int price - effective_cost_export s then
       let order_quantity =
             max (min (- quantity) (position_limit s - max (expected_position s) 0)) 0
       in long_arbitrage_loop rest
            (s\<lparr> orders := orders s @ [Order (symbol s) price order_quantity],
                expected_position := expected_position s + order_quantity,
                sum_buy_qty := sum_buy_qty s + order_quantity \<rparr>)
     else s)"

fun short_arbitrage_loop ::
  "(int \<times> int) list \<Rightarrow> 'a OTCArbitrage_scheme \<Rightarrow> exception + 'a OTCArbitrage_scheme" where
  "short_arbitrage_loop [] s = Inr s"
| "short_arbitrage_loop ((price, quantity) # rest) s =
    (if min_edge s \<le> real_of_int price - otc_ask s - cost_import s then
       case getitem (bids s) (best_bid s) of
         Inl e \<Rightarrow> Inl e
       | Inr q \<Rightarrow>
          (let order_quantity =
                 min (max (- q) (- position_limit s - min (expected_position s) 0)) 0
           in short_arbitrage_loop rest
                (s\<lparr> orders := orders s @ [Order (symbol s) (best_bid s) order_quantity],
                    expected_position := expected_position s + order_quantity,
                    sum_sell_qty := sum_sell_qty s + order_quantity \<rparr>))
     else Inr s)"

text \<open>
  The walk over price levels as the specification words it, for comparison with the two
  loops above: visit the levels in book order, take each level whose own edge clears the
  threshold, stop at the first level that does not, and size each take as the lesser of
  the level's own resting quantity and the capacity left in that direction (clamped at
  zero, signed like the order). The result lists the price and the signed quantity of
  each take.
\<close>

fun arbitrage_walk_spec ::
  "arb_side \<Rightarrow> (int \<Rightarrow> bool) \<Rightarrow> int \<Rightarrow> int \<Rightarrow> (int \<times> int) list \<Rightarrow> (int \<times> int) list" where
  "arbitrage_walk_spec side clears limit e [] = []"
| "arbitrage_walk_spec side clears limit e ((price, quantity) # rest) =
    (if clears price then
       let take = (case side of
                     Long \<Rightarrow> max (min (- quantity) (limit - max e 0)) 0
                   | Short \<Rightarrow> min (max (- quantity) (- limit - min e 0)) 0)
       in (price, take) # arbitrage_walk_spec side clears limit (e + take) rest
     else [])"

text \<open>
  \<^verbatim>\<open>max(edges, key=...)\<close> over the keys \<^verbatim>\<open>"Long", "Short"\<close> returns the first
  maximal key: \<^verbatim>\<open>"Short"\<close> only when its edge is strictly larger.
\<close>

definition arbitrage_exchange_enter ::
  "'a OTCArbitrage_scheme \<Rightarrow> exception + 'a OTCArbitrage_scheme" where
  "arbitrage_exchange_enter s =
    (let long_arb_edge = otc_bid s - real_of_int (best_ask s) - effective_cost_export s;
         short_arb_edge = real_of_int (best_bid s) - otc_ask s - cost_import s;
         max_key = (if long_arb_edge < short_arb_edge then Short else Long);
         max_edge = (case max_key of Long \<Rightarrow> long_arb_edge | Short \<Rightarrow> short_arb_edge)
     in if max_key = Long \<and> min_edge s \<le> max_edge then Inr (long_arbitrage_loop (asks s) s)
        else if max_key = Short \<and> min_edge s \<le> max_edge then short_arbitrage_loop (bids s) s
        else Inr s)"

definition OTCArbitrage_market_make :: "'a OTCArbitrage_scheme \<Rightarrow> 'a OTCArbitrage_scheme" where
  "OTCArbitrage_market_make s =
    (let bid_quantity = bid_limit_of s;
         ask_quantity = ask_limit_of s;
         bid_arb_free = otc_bid s - effective_cost_export s;
         ask_arb_free = otc_ask s + cost_import s;
         bid_price = \<lfloor>bid_arb_free - mm_edge s\<rfloor>;
         ask_price = \<lceil>ask_arb_free + mm_edge s\<rceil>
     in s\<lparr> orders := orders s @ [Order (symbol s) bid_price bid_quantity,
                                   Order (symbol s) ask_price ask_quantity] \<rparr>)"

definition arbitrage_otc_exit :: "'a OTCArbitrage_scheme \<Rightarrow> 'a OTCArbitrage_scheme" where
  "arbitrage_otc_exit s = s\<lparr> conversions := - position s \<rparr>"

text \<open>The method returns \<^verbatim>\<open>(self.orders, self.conversions)\<close>, two fields of the result here.\<close>

definition aggregate_orders_conversions ::
  "'a OTCArbitrage_scheme \<Rightarrow> exception + 'a OTCArbitrage_scheme" where
  "aggregate_orders_conversions s =
     ebind (arbitrage_exchange_enter s) (\<lambda>s1.
       Inr (arbitrage_otc_exit (OTCArbitrage_market_make s1)))"

section \<open>BasketTrading\<close>

record BasketTrading =
  basket :: MarketMaking
  constituent :: "(string \<times> Strategy) list"
  c_symbols :: "string list"
  c_ratios :: "(string \<times> int) list"
  c_limits :: "(string \<times> int) list"
  c_mid_vwap :: "(string \<times> real) list"
  c_w_bid :: "(string \<times> int) list"
  c_w_ask :: "(string \<times> int) list"
  c_positions :: "(string \<times> int) list"
  basket_limit :: int
  premium_mean :: real
  premium_std :: real
  alpha :: real
  beta :: real
  sl_target :: int
  carry :: real
  basket_nav :: real
  premium :: real
  z_score :: real

definition BasketTrading_init ::
  "TradingState \<Rightarrow> product_config \<Rightarrow> (string \<times> product_config) list \<Rightarrow> basket_config
     \<Rightarrow> exception + BasketTrading" where
  "BasketTrading_init state bc cc sc =
     ebind (MarketMaking_init state bc sc) (\<lambda>b.
     ebind (emap (\<lambda>(smb, config). ebind (Strategy_init state config) (\<lambda>st. Inr (smb, st))) cc)
       (\<lambda>cons.
     let syms = map fst cons in
     ebind (emap (\<lambda>(smb, config).
              case PER_BASKET config of None \<Rightarrow> Inl KeyError | Some r \<Rightarrow> Inr (smb, r)) cc)
       (\<lambda>ratios.
     let limits = map (\<lambda>(smb, st). (smb, position_limit st)) cons;
         mids = map (\<lambda>(smb, st). (smb, mid_vwap st)) cons in
     ebind (emap (\<lambda>smb.
              ebind (getitem limits smb) (\<lambda>l.
              ebind (getitem ratios smb) (\<lambda>r.
              truediv (real_of_int l) (real_of_int r)))) syms)
       (\<lambda>quotients.
     ebind (py_min quotients) (\<lambda>m.
     let bl = min \<lfloor>m\<rfloor> (position_limit b) in
     ebind (emap (\<lambda>smb.
              ebind (getitem ratios smb) (\<lambda>r.
              ebind (getitem mids smb) (\<lambda>v.
              Inr (real_of_int r * v)))) syms)
       (\<lambda>terms.
     let nav = sum_list terms;
         prem = mid_vwap b - nav in
     ebind (truediv (prem - PREMIUM_MEAN sc) (PREMIUM_STD sc)) (\<lambda>z.
     Inr \<lparr> basket = b\<lparr> fair_value := mid_vwap b, position_limit := bl \<rparr>,
           constituent = cons, c_symbols = syms, c_ratios = ratios, c_limits = limits,
           c_mid_vwap = mids,
           c_w_bid = map (\<lambda>(smb, st). (smb, worst_bid st)) cons,
           c_w_ask = map (\<lambda>(smb, st). (smb, worst_ask st)) cons,
           c_positions = map (\<lambda>(smb, st). (smb, position st)) cons,
           basket_limit = bl,
           premium_mean = PREMIUM_MEAN sc, premium_std = PREMIUM_STD sc,
           alpha = LINEAR_SENSITIVITY sc, beta = QUADRATIC_SENSITIVITY sc,
           sl_target = SL_TARGET sc, carry = CARRY sc,
           basket_nav = nav, premium = prem, z_score = z \<rparr>)))))))"

definition calculate_fair_value :: "BasketTrading \<Rightarrow> BasketTrading" where
  "calculate_fair_value t =
    (let demeaned_premium = premium t - premium_mean t;
         scaling_coefficient = alpha t * \<bar>z_score t\<bar> + beta t * (z_score t)\<^sup>2;
         pricing_shift = - demeaned_premium * scaling_coefficient
     in t\<lparr> basket := (basket t)\<lparr> fair_value := fair_value (basket t) + pricing_shift \<rparr> \<rparr>)"

definition aggressive_stop_loss :: "BasketTrading \<Rightarrow> BasketTrading" where
  "aggressive_stop_loss t =
    (let b = basket t in
     if sl_inventory b < position b then
       let order_quantity = max (- bid_volume b) (sl_target t - position b);
           order_price = worst_bid b
       in t\<lparr> basket := b\<lparr> orders := orders b @ [Order (symbol b) order_price order_quantity],
                            expected_position := expected_position b + order_quantity,
                            sum_sell_qty := sum_sell_qty b + order_quantity \<rparr> \<rparr>
     else if position b < - sl_inventory b then
       let order_quantity = min (- ask_volume b) (- sl_target t - position b);
           order_price = worst_ask b
       in t\<lparr> basket := b\<lparr> orders := orders b @ [Order (symbol b) order_price order_quantity],
                            expected_position := expected_position b + order_quantity,
                            sum_buy_qty := sum_buy_qty b + order_quantity \<rparr> \<rparr>
     else t)"

definition aggregate_basket_orders :: "BasketTrading \<Rightarrow> exception + BasketTrading" where
  "aggregate_basket_orders t =
    (let t1 = calculate_fair_value t in
     ebind (scratch_under_valued True (basket t1)) (\<lambda>b1.
     let t2 = aggressive_stop_loss (t1\<lparr> basket := b1 \<rparr>) in
     Inr (t2\<lparr> basket := market_make (basket t2) \<rparr>)))"

section \<open>Trader\<close>

definition symbols :: "string list" where
  "symbols = [''AMETHYSTS'', ''STARFRUIT'', ''ORCHIDS'',
              ''GIFT_BASKET'', ''CHOCOLATE'', ''STRAWBERRIES'', ''ROSES'']"

text \<open>
  \<^verbatim>\<open>Trader.config\<close>. The code indexes it with the literal entries of \<^verbatim>\<open>symbols\<close> only,
  so \<^verbatim>\<open>config['PRODUCT'][s]\<close> is \<open>config_PRODUCT s\<close> and each entry of
  \<^verbatim>\<open>config['STRATEGY']\<close> is a constant of its own.
\<close>

definition config_PRODUCT :: "string \<Rightarrow> product_config" where
  "config_PRODUCT s =
    \<lparr> SYMBOL = s, PRODUCT = s,
      POSITION_LIMIT =
        (if s = ''AMETHYSTS'' then 20 else if s = ''STARFRUIT'' then 20
         else if s = ''ORCHIDS'' then 100 else if s = ''GIFT_BASKET'' then 60
         else if s = ''CHOCOLATE'' then 250 else if s = ''STRAWBERRIES'' then 350
         else 60),
      COST_STORING = (if s = ''ORCHIDS'' then Some (1 / 10) else None),
      PER_BASKET =
        (if s = ''CHOCOLATE'' then Some 4 else if s = ''STRAWBERRIES'' then Some 6
         else if s = ''ROSES'' then Some 1 else None) \<rparr>"

definition config_STRATEGY_AMETHYSTS :: mm_config where
  "config_STRATEGY_AMETHYSTS =
    \<lparr> FAIR_VALUE = 10000, SL_INVENTORY = 20, SL_SPREAD = 1, MM_SPREAD = 2, ORDER_SKEW = 1 \<rparr>"

definition config_STRATEGY_STARFRUIT :: lr_config where
  "config_STRATEGY_STARFRUIT =
    \<lparr> FAIR_VALUE = 5000, SL_INVENTORY = 10, SL_SPREAD = 1, MM_SPREAD = 2, ORDER_SKEW = 1,
      MIN_WINDOW_SIZE = 5, MAX_WINDOW_SIZE = 10, PREDICT_SHIFT = 1 \<rparr>"

definition config_STRATEGY_ORCHIDS :: otc_config where
  "config_STRATEGY_ORCHIDS = \<lparr> EXP_STORAGE_TIME = 1, MIN_EDGE = 1, MM_EDGE = 3 / 2 \<rparr>"

definition config_STRATEGY_GIFT_BASKET :: basket_config where
  "config_STRATEGY_GIFT_BASKET =
    \<lparr> FAIR_VALUE = 70000, SL_INVENTORY = 57, SL_SPREAD = 1, MM_SPREAD = 2, ORDER_SKEW = 1,
      PREMIUM_MEAN = 385, PREMIUM_STD = 75,
      LINEAR_SENSITIVITY = 1, QUADRATIC_SENSITIVITY = 0, SL_TARGET = 0, CARRY = 2 \<rparr>"

text \<open>
  \<^verbatim>\<open>Trader.data\<close>, the rolling histories kept in memory between calls: a dictionary from
  symbol to a deque of floats. \<^verbatim>\<open>jsonpickle\<close> is an external library: its parser is the
  parameter \<open>parse\<close>, which returns the decoded dictionary or the exception it raises, and
  its encoder is the parameter \<open>encode\<close>. One fact about it is fixed: the empty string is
  not a JSON document, so decoding it raises.
\<close>

type_synonym trader_data = "(string \<times> real list) list"

definition jsonpickle_decode ::
  "(string \<Rightarrow> exception + trader_data) \<Rightarrow> string \<Rightarrow> exception + trader_data" where
  "jsonpickle_decode parse s = (if s = [] then Inl JSONDecodeError else parse s)"

definition restore_data ::
  "(string \<Rightarrow> exception + trader_data) \<Rightarrow> int \<Rightarrow> string \<Rightarrow> trader_data
     \<Rightarrow> exception + trader_data" where
  "restore_data parse ts encoded_data data =
    (let data_loss = list_ex (\<lambda>(k, v). v \<noteq> []) data in
     if 100 \<le> ts \<and> data_loss then jsonpickle_decode parse encoded_data else Inr data)"

text \<open>The \<^verbatim>\<open>while\<close> loop of \<^verbatim>\<open>store_data\<close>; \<^verbatim>\<open>popleft\<close> on an empty deque raises.\<close>

fun popleft_while :: "int \<Rightarrow> real list \<Rightarrow> exception + real list" where
  "popleft_while max_size [] = (if max_size \<le> 0 then Inl IndexError else Inr [])"
| "popleft_while max_size (x # xs) =
     (if max_size \<le> int (length (x # xs)) then popleft_while max_size xs else Inr (x # xs))"

fun setitem :: "('k \<times> 'v) list \<Rightarrow> 'k \<Rightarrow> 'v \<Rightarrow> ('k \<times> 'v) list" where
  "setitem [] k v = [(k, v)]"
| "setitem ((k', v') # d) k v = (if k' = k then (k, v) # d else (k', v') # setitem d k v)"

definition store_data :: "string \<Rightarrow> real \<Rightarrow> int \<Rightarrow> trader_data \<Rightarrow> exception + trader_data" where
  "store_data smb val max_size data =
     ebind (if max_size \<noteq> 0
            then ebind (getitem data smb) (\<lambda>h.
                 ebind (popleft_while max_size h) (\<lambda>h'. Inr (setitem data smb h')))
            else Inr data) (\<lambda>data1.
     ebind (getitem data1 smb) (\<lambda>h. Inr (setitem data1 smb (h @ [val]))))"

text \<open>
  \<^verbatim>\<open>Trader.run\<close> takes the rolling data in memory and returns, beside its result, the
  rolling data it leaves in memory. When it raises, the model keeps the exception only:
  what the call had already stored in memory is not part of the result.
\<close>

type_synonym run_output = "(string \<times> Order list) list \<times> int \<times> string"

definition run ::
  "(string \<Rightarrow> exception + trader_data) \<Rightarrow> (trader_data \<Rightarrow> string) \<Rightarrow> trader_data \<Rightarrow> TradingState
     \<Rightarrow> exception + run_output \<times> trader_data" where
  "run parse encode data state =
     ebind (restore_data parse (state_timestamp state) (traderData state) data) (\<lambda>data1.
     ebind (MarketMaking_init state (config_PRODUCT (symbols ! 0)) config_STRATEGY_AMETHYSTS)
       (\<lambda>fixed_mm.
     ebind (aggregate_orders True fixed_mm) (\<lambda>fixed_mm'.
     ebind (LinearRegressionMM_init state (config_PRODUCT (symbols ! 1)) config_STRATEGY_STARFRUIT)
       (\<lambda>lr_mm.
     ebind (store_data (symbol lr_mm) (mid_vwap lr_mm) (max_window_size lr_mm) data1)
       (\<lambda>data2.
     ebind (getitem data2 (symbols ! 1)) (\<lambda>price_history.
     ebind (predict_price price_history lr_mm) (\<lambda>lr_mm1.
     ebind (aggregate_orders True lr_mm1) (\<lambda>lr_mm'.
     ebind (OTCArbitrage_init state (config_PRODUCT (symbols ! 2)) config_STRATEGY_ORCHIDS)
       (\<lambda>otc_arb.
     ebind (aggregate_orders_conversions otc_arb) (\<lambda>otc_arb'.
     ebind (BasketTrading_init state (config_PRODUCT (symbols ! 3))
              (map (\<lambda>i. (symbols ! i, config_PRODUCT (symbols ! i))) [4 ..< 7])
              config_STRATEGY_GIFT_BASKET) (\<lambda>basket_trading.
     ebind (aggregate_basket_orders basket_trading) (\<lambda>basket_trading'.
     Inr (([(symbols ! 0, orders fixed_mm'),
            (symbols ! 1, orders lr_mm'),
            (symbols ! 2, orders otc_arb'),
            (symbols ! 3, orders (basket basket_trading'))],
           conversions otc_arb',
           encode data2), data2)))))))))))))"

section \<open>The ledger of one tick\<close>

text \<open>
  Vocabulary for the properties below. \<open>total_quantity\<close> is the signed sum of the
  quantities of a list of orders: the change of position if all of them are filled.
  \<open>ledger_fresh\<close> is the state of the running totals that \<^verbatim>\<open>Strategy.__init__\<close> leaves.
  \<open>book_signed\<close> is the convention of the host's order book: resting buy quantities are
  not negative and resting sell quantities are not positive. \<open>same_frame\<close> relates two
  states of one object that differ by orders accounted for in \<open>expected_position\<close>.
\<close>

definition total_quantity :: "Order list \<Rightarrow> int" where
  "total_quantity os = sum_list (map order_quantity os)"

definition within_limit :: "'a Strategy_scheme \<Rightarrow> int \<Rightarrow> bool" where
  "within_limit s x \<longleftrightarrow> - position_limit s \<le> x \<and> x \<le> position_limit s"

definition ledger_fresh :: "'a Strategy_scheme \<Rightarrow> bool" where
  "ledger_fresh s \<longleftrightarrow>
     orders s = [] \<and> expected_position s = position s \<and> sum_buy_qty s = 0 \<and> sum_sell_qty s = 0"

definition book_signed :: "'a Strategy_scheme \<Rightarrow> bool" where
  "book_signed s \<longleftrightarrow>
     list_all (\<lambda>(p, q). 0 \<le> q) (bids s) \<and> list_all (\<lambda>(p, q). q \<le> 0) (asks s)"

definition ledger_ok :: "'a Strategy_scheme \<Rightarrow> bool" where
  "ledger_ok s \<longleftrightarrow> expected_position s = position s + total_quantity (orders s)"

definition same_frame :: "'a Strategy_scheme \<Rightarrow> 'b Strategy_scheme \<Rightarrow> bool" where
  "same_frame s s' \<longleftrightarrow>
     position s' = position s \<and> position_limit s' = position_limit s
     \<and> bids s' = bids s \<and> asks s' = asks s
     \<and> best_bid s' = best_bid s \<and> best_ask s' = best_ask s
     \<and> bid_volume s' = bid_volume s \<and> ask_volume s' = ask_volume s
     \<and> expected_position s' - total_quantity (orders s')
         = expected_position s - total_quantity (orders s)"

section \<open>Well-formed input\<close>

text \<open>
  \<open>book_ok state s\<close>: the snapshot has an order book for symbol \<open>s\<close> with at least one
  price level on each side and a total volume on each side that is not zero.
  \<open>quotes_in_book\<close>: the best bid and the best ask of a strategy object are price levels
  of its book, as \<^verbatim>\<open>Strategy.__init__\<close> makes them.
\<close>

definition book_ok :: "TradingState \<Rightarrow> string \<Rightarrow> bool" where
  "book_ok state smb \<longleftrightarrow>
     (case order_depths state smb of
        None \<Rightarrow> False
      | Some od \<Rightarrow> buy_orders od \<noteq> [] \<and> sell_orders od \<noteq> []
                   \<and> sum_list (map snd (buy_orders od)) \<noteq> 0
                   \<and> sum_list (map snd (sell_orders od)) \<noteq> 0)"

definition quotes_in_book :: "'a Strategy_scheme \<Rightarrow> bool" where
  "quotes_in_book s \<longleftrightarrow>
     best_bid s \<in> fst ` set (bids s) \<and> best_ask s \<in> fst ` set (asks s)"

section \<open>Example inputs\<close>

text \<open>
  One tick at timestamp 400 with a two-level book for every traded product, and the
  strategy objects that the constructors build from it (see the lemmas
  \<open>example_amethysts_init\<close> and its siblings below).
\<close>

definition example_state :: TradingState where
  "example_state =
    \<lparr> traderData = ''STARFRUIT:5000,5001,5002,5003'',
      state_timestamp = 400,
      order_depths =
        [''AMETHYSTS'' \<mapsto> \<lparr> buy_orders = [(10002, 3), (9998, 5)],
                             sell_orders = [(10004, - 4), (10005, - 6)] \<rparr>,
         ''STARFRUIT'' \<mapsto> \<lparr> buy_orders = [(5001, 3), (4999, 5)],
                             sell_orders = [(5003, - 4), (5005, - 6)] \<rparr>,
         ''ORCHIDS'' \<mapsto> \<lparr> buy_orders = [(1100, 5), (1099, 3)],
                           sell_orders = [(1105, - 4), (1106, - 6)] \<rparr>,
         ''GIFT_BASKET'' \<mapsto> \<lparr> buy_orders = [(70380, 2), (70379, 2)],
                               sell_orders = [(70390, - 2), (70391, - 2)] \<rparr>,
         ''CHOCOLATE'' \<mapsto> \<lparr> buy_orders = [(7999, 5)], sell_orders = [(8001, - 5)] \<rparr>,
         ''STRAWBERRIES'' \<mapsto> \<lparr> buy_orders = [(3999, 5)], sell_orders = [(4001, - 5)] \<rparr>,
         ''ROSES'' \<mapsto> \<lparr> buy_orders = [(13999, 5)], sell_orders = [(14001, - 5)] \<rparr>],
      state_position = [''STARFRUIT'' \<mapsto> 15],
      conversionObservations =
        [''ORCHIDS'' \<mapsto> \<lparr> bidPrice = 1090, askPrice = 1092, transportFees = 1,
            exportTariff = 1, importTariff = 1, obs_sunlight = 0, obs_humidity = 0 \<rparr>] \<rparr>"

definition example_amethysts :: MarketMaking where
  "example_amethysts =
    \<lparr> symbol = ''AMETHYSTS'', product = ''AMETHYSTS'', position_limit = 20,
      timestamp = 400, position = 0, bids = [(10002, 3), (9998, 5)],
      asks = [(10004, - 4), (10005, - 6)], best_bid = 10002,
      best_ask = 10004, worst_bid = 9998, worst_ask = 10005,
      bid_volume = 8, ask_volume = - 10, bid_sweep = 79996,
      ask_sweep = - 100046, bid_vwap = 19999 / 2, ask_vwap = 50023 / 5,
      mid_vwap = 200041 / 20, orders = [], expected_position = 0,
      sum_buy_qty = 0, sum_sell_qty = 0, fair_value = 10000,
      sl_inventory = 20, sl_spread = 1, mm_spread = 2, order_skew = 1 \<rparr>"

definition example_starfruit :: LinearRegressionMM where
  "example_starfruit =
    \<lparr> symbol = ''STARFRUIT'', product = ''STARFRUIT'', position_limit = 20,
      timestamp = 400, position = 15, bids = [(5001, 3), (4999, 5)],
      asks = [(5003, - 4), (5005, - 6)], best_bid = 5001, best_ask = 5003,
      worst_bid = 4999, worst_ask = 5005, bid_volume = 8,
      ask_volume = - 10, bid_sweep = 39998, ask_sweep = - 50042,
      bid_vwap = 19999 / 4, ask_vwap = 25021 / 5, mid_vwap = 200079 / 40,
      orders = [], expected_position = 15, sum_buy_qty = 0,
      sum_sell_qty = 0, fair_value = 5000, sl_inventory = 10,
      sl_spread = 1, mm_spread = 2, order_skew = 1, min_window_size = 5,
      max_window_size = 10, predict_shift = 1 \<rparr>"

definition example_orchids :: OTCArbitrage where
  "example_orchids =
    \<lparr> symbol = ''ORCHIDS'', product = ''ORCHIDS'', position_limit = 100,
      timestamp = 400, position = 0, bids = [(1100, 5), (1099, 3)],
      asks = [(1105, - 4), (1106, - 6)], best_bid = 1100, best_ask = 1105,
      worst_bid = 1099, worst_ask = 1106, bid_volume = 8,
      ask_volume = - 10, bid_sweep = 8797, ask_sweep = - 11056,
      bid_vwap = 8797 / 8, ask_vwap = 5528 / 5, mid_vwap = 88209 / 80,
      orders = [], expected_position = 0, sum_buy_qty = 0,
      sum_sell_qty = 0, unit_cost_storing = 1 / 10,
      observation =
        \<lparr> bidPrice = 1090, askPrice = 1092, transportFees = 1,
          exportTariff = 1, importTariff = 1, obs_sunlight = 0,
          obs_humidity = 0 \<rparr>,
      otc_bid = 1090, otc_ask = 1092, cost_import = 2, cost_export = 2,
      sunlight = 0, humidity = 0, conversions = 0,
      expected_storage_time = 1, effective_cost_export = 21 / 10,
      min_edge = 1, mm_edge = 3 / 2 \<rparr>"

definition example_gift_basket :: MarketMaking where
  "example_gift_basket =
    \<lparr> symbol = ''GIFT_BASKET'', product = ''GIFT_BASKET'',
      position_limit = 58, timestamp = 400, position = 0,
      bids = [(70380, 2), (70379, 2)],
      asks = [(70390, - 2), (70391, - 2)], best_bid = 70380,
      best_ask = 70390, worst_bid = 70379, worst_ask = 70391,
      bid_volume = 4, ask_volume = - 4, bid_sweep = 281518,
      ask_sweep = - 281562, bid_vwap = 140759 / 2,
      ask_vwap = 140781 / 2, mid_vwap = 70385, orders = [],
      expected_position = 0, sum_buy_qty = 0, sum_sell_qty = 0,
      fair_value = 70385, sl_inventory = 57, sl_spread = 1,
      mm_spread = 2, order_skew = 1 \<rparr>"

text \<open>
  A codec for the examples, defined on the one history they carry, and two variants of the
  example tick: one whose AMETHYSTS book has no bids, one whose \<^verbatim>\<open>traderData\<close> is empty.
\<close>

definition example_parse :: "string \<Rightarrow> exception + trader_data" where
  "example_parse s =
     (if s = ''STARFRUIT:5000,5001,5002,5003''
      then Inr [(''STARFRUIT'', [5000, 5001, 5002, 5003])]
      else Inl JSONDecodeError)"

definition example_encode :: "trader_data \<Rightarrow> string" where
  "example_encode d =
     (if d = [(''STARFRUIT'', [5000, 5001, 5002, 5003])]
      then ''STARFRUIT:5000,5001,5002,5003'' else ''?'')"

definition empty_bid_state :: TradingState where
  "empty_bid_state =
     example_state\<lparr> order_depths := (order_depths example_state)
       (''AMETHYSTS'' \<mapsto> \<lparr> buy_orders = [], sell_orders = [(10004, - 4), (10005, - 6)] \<rparr>) \<rparr>"

definition lost_data_state :: TradingState where
  "lost_data_state = example_state\<lparr> traderData := [] \<rparr>"



section \<open>The exception monad\<close>

lemma ebind_Inl [simp]: "ebind (Inl e) f = Inl e"
  by (simp add: ebind_def)

lemma ebind_Inr [simp]: "ebind (Inr x) f = f x"
  by (simp add: ebind_def)

lemma ebind_weak_cong [cong]: "m = m' \<Longrightarrow> ebind m f = ebind m' f"
  by simp

lemma ebind_eq_Inr: "ebind m f = Inr y \<longleftrightarrow> (\<exists>x. m = Inr x \<and> f x = Inr y)"
  by (cases m) simp_all

section \<open>Rounding to a double\<close>

lemma binade_eq: "0 < x \<Longrightarrow> binade x = \<lfloor>log 2 x\<rfloor>"
proof (induction x rule: binade.induct)
  case (1 x)
  show ?case
  proof (cases "2 \<le> x")
    case True
    then have "log 2 (x / 2) = log 2 x - 1" by (simp add: log_divide)
    then have "\<lfloor>log 2 (x / 2)\<rfloor> = \<lfloor>log 2 x\<rfloor> - 1" by simp
    then show ?thesis
      using 1 True by (subst binade.simps) simp
  next
    case False
    show ?thesis
    proof (cases "x < 1")
      case True
      then have "log 2 (x * 2) = log 2 x + 1" using 1(3) by (simp add: log_mult)
      then have "\<lfloor>log 2 (x * 2)\<rfloor> = \<lfloor>log 2 x\<rfloor> + 1" by simp
      then show ?thesis
        using 1 True False by (subst binade.simps) simp
    next
      case b: False
      then have "0 \<le> log 2 x" "log 2 x < 1" using False by (simp_all add: log_less_iff)
      then have "\<lfloor>log 2 x\<rfloor> = 0" by linarith
      then show ?thesis
        using 1(3) b False by (subst binade.simps) simp
    qed
  qed
qed

lemma fl_unfold:
  assumes "x \<noteq> 0"
  shows "fl x = real_of_int (round_half_even (x / 2 powr real_of_int (\<lfloor>log 2 \<bar>x\<bar>\<rfloor> - 52)))
                  * 2 powr real_of_int (\<lfloor>log 2 \<bar>x\<bar>\<rfloor> - 52)"
proof -
  have e: "(2::real) powi (\<lfloor>log 2 \<bar>x\<bar>\<rfloor> - 52) = 2 powr real_of_int (\<lfloor>log 2 \<bar>x\<bar>\<rfloor> - 52)"
    by (rule powr_real_of_int' [symmetric]) simp_all
  have b: "binade \<bar>x\<bar> = \<lfloor>log 2 \<bar>x\<bar>\<rfloor>"
    using assms by (intro binade_eq) simp
  show ?thesis
    unfolding fl_def Let_def b e using assms by (simp only: if_False)
qed

lemma round_half_even_of_int [simp]: "round_half_even (real_of_int k) = k"
  by (simp add: round_half_even_def)

lemma round_half_even_close: "\<bar>real_of_int (round_half_even r) - r\<bar> \<le> 1 / 2"
  unfolding round_half_even_def Let_def by (auto simp: abs_if) linarith+


lemma fl_zero [simp]: "fl 0 = 0"
  by (simp add: fl_def)

lemma binade_bounds:
  assumes "x \<noteq> 0"
  shows "2 ^ 52 \<le> \<bar>x\<bar> / 2 powr real_of_int (\<lfloor>log 2 \<bar>x\<bar>\<rfloor> - 52)"
    and "\<bar>x\<bar> / 2 powr real_of_int (\<lfloor>log 2 \<bar>x\<bar>\<rfloor> - 52) < 2 ^ 53"
proof -
  let ?l = "\<lfloor>log 2 \<bar>x\<bar>\<rfloor>"
  have pos: "0 < \<bar>x\<bar>" using assms by simp
  have x: "\<bar>x\<bar> = 2 powr log 2 \<bar>x\<bar>" using pos by simp
  have "2 powr real_of_int ?l \<le> 2 powr log 2 \<bar>x\<bar>"
    by (rule powr_mono) simp_all
  then have lo: "2 powr real_of_int ?l \<le> \<bar>x\<bar>" using x by simp
  have "log 2 \<bar>x\<bar> < real_of_int ?l + 1" by linarith
  then have "2 powr log 2 \<bar>x\<bar> < 2 powr (real_of_int ?l + 1)"
    by (rule powr_less_mono) simp
  then have hi: "\<bar>x\<bar> < 2 powr real_of_int ?l * 2" using x by (simp add: powr_add)
  have split: "2 powr real_of_int (?l - 52) = 2 powr real_of_int ?l / 2 ^ 52"
    by (simp add: powr_diff powr_realpow [symmetric])
  have p: "0 < 2 powr real_of_int ?l" by simp
  show "2 ^ 52 \<le> \<bar>x\<bar> / 2 powr real_of_int (?l - 52)"
    unfolding split using lo p by (simp add: field_simps)
  show "\<bar>x\<bar> / 2 powr real_of_int (?l - 52) < 2 ^ 53"
    unfolding split using hi p by (simp add: field_simps)
qed

lemma fl_eq_0_iff [simp]: "fl x = 0 \<longleftrightarrow> x = 0"
proof
  assume z: "fl x = 0"
  show "x = 0"
  proof (rule ccontr)
    assume nz: "x \<noteq> 0"
    define e where "e = \<lfloor>log 2 \<bar>x\<bar>\<rfloor> - 52"
    define y where "y = x / 2 powr real_of_int e"
    have "\<bar>y\<bar> = \<bar>x\<bar> / 2 powr real_of_int e" by (simp add: y_def)
    then have big: "2 ^ 52 \<le> \<bar>y\<bar>" using binade_bounds(1) [OF nz] by (simp add: e_def)
    have "fl x = real_of_int (round_half_even y) * 2 powr real_of_int e"
      using fl_unfold [OF nz] by (simp add: e_def y_def)
    then have "round_half_even y = 0" using z by simp
    then have "\<bar>y\<bar> \<le> 1 / 2" using round_half_even_close [of y] by simp
    then show False using big by simp
  qed
qed simp

lemma fl_pos: "0 < x \<Longrightarrow> 0 < fl x"
proof -
  assume pos: "0 < x"
  define e where "e = \<lfloor>log 2 \<bar>x\<bar>\<rfloor> - 52"
  define y where "y = x / 2 powr real_of_int e"
  have "\<bar>x\<bar> / 2 powr real_of_int e = y" using pos by (simp add: y_def)
  then have big: "2 ^ 52 \<le> y" using binade_bounds(1) [of x] pos by (simp add: e_def)
  have "(1::real) \<le> 2 ^ 52" by simp
  then have "0 < real_of_int (round_half_even y)"
    using round_half_even_close [of y] big by linarith
  moreover have "fl x = real_of_int (round_half_even y) * 2 powr real_of_int e"
    using fl_unfold [of x] pos by (simp add: e_def y_def)
  ultimately show ?thesis by simp
qed

lemma fl_nonneg: "0 \<le> x \<Longrightarrow> 0 \<le> fl x"
  using fl_pos [of x] by (cases "x = 0") (simp_all add: less_eq_real_def)



lemma fl_of_int:
  assumes "\<bar>i\<bar> < 2 ^ 53"
  shows "fl (real_of_int i) = real_of_int i"
proof (cases "i = 0")
  case False
  define l where "l = \<lfloor>log 2 \<bar>real_of_int i\<bar>\<rfloor>"
  have nz: "real_of_int i \<noteq> 0" using False by simp
  have one: "1 \<le> \<bar>real_of_int i\<bar>" using False by (auto simp: abs_if)
  have "\<bar>real_of_int i\<bar> < 2 ^ 53"
    using assms by (metis of_int_abs of_int_less_iff of_int_numeral of_int_power)
  then have "log 2 \<bar>real_of_int i\<bar> < 53"
    using one by (subst log_less_iff) simp_all
  then have up: "l \<le> 52" unfolding l_def by linarith
  have "0 \<le> log 2 \<bar>real_of_int i\<bar>" using one by simp
  then have lo: "0 \<le> l" unfolding l_def by simp
  define m where "m = nat (52 - l)"
  have e: "l - 52 = - int m" using up by (simp add: m_def)
  have p: "2 powr - real m = 1 / 2 ^ m"
    by (simp add: powr_minus powr_realpow field_simps)
  have "real_of_int i * 2 ^ m = real_of_int (i * 2 ^ m)" by simp
  then have "round_half_even (real_of_int i * 2 ^ m) = i * 2 ^ m"
    by (simp only: round_half_even_of_int)
  then show ?thesis
    using fl_unfold [OF nz] by (simp add: l_def [symmetric] e p)
qed simp

lemma fl_numeral [simp]:
  "(numeral w :: int) < 2 ^ 53 \<Longrightarrow> fl (numeral w) = numeral w"
  using fl_of_int [of "numeral w"] by simp

lemma fl_neg_numeral [simp]:
  "(numeral w :: int) < 2 ^ 53 \<Longrightarrow> fl (- numeral w) = - numeral w"
  using fl_of_int [of "- numeral w"] by simp

lemma fl_one [simp]: "fl 1 = 1"
  using fl_of_int [of 1] by simp

section \<open>The example objects are the ones the constructors build\<close>




section \<open>Quote prices\<close>

text \<open>
  C4. For every fair value and every market-making spread of at least 1, the two orders
  that \<^verbatim>\<open>MarketMaking.market_make\<close> appends are a bid at \<open>ceil(fair_value - mm_spread)\<close>
  and an ask at \<open>floor(fair_value + mm_spread)\<close>, and the bid price is at most the fair
  value, which is at most the ask price.
\<close>

theorem market_make_never_crosses_fair_value:
  assumes "1 \<le> mm_spread s"
  shows "\<exists>bid_quantity ask_quantity.
           orders (market_make s) =
             orders s @ [Order (symbol s) \<lceil>fair_value s - mm_spread s\<rceil> bid_quantity,
                         Order (symbol s) \<lfloor>fair_value s + mm_spread s\<rfloor> ask_quantity]
         \<and> real_of_int \<lceil>fair_value s - mm_spread s\<rceil> \<le> fair_value s
         \<and> fair_value s \<le> real_of_int \<lfloor>fair_value s + mm_spread s\<rfloor>"
proof -
  have b: "real_of_int \<lceil>fair_value s - mm_spread s\<rceil> \<le> fair_value s"
    using assms ceiling_correct [of "fair_value s - mm_spread s"] by linarith
  have a: "fair_value s \<le> real_of_int \<lfloor>fair_value s + mm_spread s\<rfloor>"
    using assms floor_correct [of "fair_value s + mm_spread s"] by linarith
  show ?thesis using a b by (simp add: market_make_def Let_def)
qed

theorem market_make_never_crosses_fair_value_witness:
  "1 \<le> mm_spread example_amethysts
   \<and> (\<exists>bid_quantity ask_quantity.
         orders (market_make example_amethysts) =
           [Order ''AMETHYSTS'' 9998 bid_quantity, Order ''AMETHYSTS'' 10002 ask_quantity])
   \<and> real_of_int 9998 \<le> fair_value example_amethysts
   \<and> fair_value example_amethysts \<le> real_of_int 10002"
proof -
  have h: "1 \<le> mm_spread example_amethysts"
    by (simp add: example_amethysts_def)
  show ?thesis
    using h market_make_never_crosses_fair_value [OF h]
    by (simp add: example_amethysts_def)
qed

section \<open>Regression fallback\<close>

text \<open>
  C7. For every price history whose length is strictly below the configured minimum
  window size, \<^verbatim>\<open>LinearRegressionMM.predict_price\<close> returns normally and sets the fair
  value to the current mid-VWAP, changing nothing else.
\<close>

theorem predict_price_fallback:
  assumes "int (length price_history) < min_window_size s"
  shows "predict_price price_history s = Inr (s\<lparr> fair_value := mid_vwap s \<rparr>)"
  using assms by (simp add: predict_price_def Let_def)

theorem predict_price_fallback_witness:
  "int (length [5000, 5001 :: real]) < min_window_size example_starfruit
   \<and> (case predict_price [5000, 5001] example_starfruit of
        Inl e \<Rightarrow> False
      | Inr s' \<Rightarrow> fair_value s' = 200079 / 40 \<and> fair_value s' = mid_vwap example_starfruit)"
proof -
  have h: "int (length [5000, 5001 :: real]) < min_window_size example_starfruit"
    by (simp add: example_starfruit_def)
  show ?thesis
    using h predict_price_fallback [OF h]
    by (simp add: example_starfruit_def)
qed

section \<open>Scratch and stop loss are exclusive\<close>

lemma scratch_emits_only_in_band:
  assumes "scratch_under_valued mv s = Inr s1" "orders s1 \<noteq> orders s"
  shows "- sl_inventory s \<le> position s \<and> position s \<le> sl_inventory s"
  using assms by (auto simp: scratch_under_valued_def Let_def split: if_splits)

lemma scratch_keeps_position:
  assumes "scratch_under_valued mv s = Inr s1"
  shows "position s1 = position s \<and> sl_inventory s1 = sl_inventory s"
  using assms by (auto simp: scratch_under_valued_def Let_def ebind_eq_Inr split: if_splits)

lemma stop_loss_emits_only_outside_band:
  assumes "stop_loss iw s = Inr s2" "orders s2 \<noteq> orders s"
  shows "sl_inventory s < \<bar>position s\<bar>"
  using assms by (auto simp: stop_loss_def Let_def split: if_splits)

text \<open>
  C10. Within one tick of a \<^verbatim>\<open>MarketMaking\<close> object (or of an object of a derived class),
  \<^verbatim>\<open>scratch_under_valued\<close> appends an order only when
  \<open>-sl_inventory \<le> position \<le> sl_inventory\<close>, \<^verbatim>\<open>stop_loss\<close> appends an order only when
  \<open>|position| > sl_inventory\<close>, the two conditions exclude each other for every position,
  and so when \<^verbatim>\<open>stop_loss\<close> runs after \<^verbatim>\<open>scratch_under_valued\<close> at most one of them has
  appended an order.
\<close>

theorem scratch_and_stop_loss_exclusive:
  "(\<forall>s1. scratch_under_valued mv s = Inr s1 \<and> orders s1 \<noteq> orders s
       \<longrightarrow> - sl_inventory s \<le> position s \<and> position s \<le> sl_inventory s)
   \<and> (\<forall>s2. stop_loss iw s = Inr s2 \<and> orders s2 \<noteq> orders s
       \<longrightarrow> sl_inventory s < \<bar>position s\<bar>)
   \<and> \<not> (- sl_inventory s \<le> position s \<and> position s \<le> sl_inventory s
          \<and> sl_inventory s < \<bar>position s\<bar>)
   \<and> (\<forall>s1 s2. scratch_under_valued mv s = Inr s1 \<and> stop_loss iw s1 = Inr s2
         \<longrightarrow> orders s1 = orders s \<or> orders s2 = orders s1)"
proof (intro conjI allI impI)
  fix s1 assume "scratch_under_valued mv s = Inr s1 \<and> orders s1 \<noteq> orders s"
  then show "- sl_inventory s \<le> position s" "position s \<le> sl_inventory s"
    using scratch_emits_only_in_band by blast+
next
  fix s2 assume "stop_loss iw s = Inr s2 \<and> orders s2 \<noteq> orders s"
  then show "sl_inventory s < \<bar>position s\<bar>"
    using stop_loss_emits_only_outside_band by blast
next
  show "\<not> (- sl_inventory s \<le> position s \<and> position s \<le> sl_inventory s
          \<and> sl_inventory s < \<bar>position s\<bar>)" by linarith
next
  fix s1 s2 assume h: "scratch_under_valued mv s = Inr s1 \<and> stop_loss iw s1 = Inr s2"
  show "orders s1 = orders s \<or> orders s2 = orders s1"
  proof (rule ccontr)
    assume n: "\<not> (orders s1 = orders s \<or> orders s2 = orders s1)"
    have "- sl_inventory s \<le> position s \<and> position s \<le> sl_inventory s"
      using h n scratch_emits_only_in_band by blast
    moreover have "sl_inventory s1 < \<bar>position s1\<bar>"
      using h n stop_loss_emits_only_outside_band by blast
    moreover have "position s1 = position s \<and> sl_inventory s1 = sl_inventory s"
      using h scratch_keeps_position by blast
    ultimately show False by linarith
  qed
qed

lemma scratch_amethysts:
  "scratch_under_valued False example_amethysts =
     Inr (example_amethysts\<lparr> orders := [Order ''AMETHYSTS'' 10002 (- 3)],
            expected_position := - 3, sum_sell_qty := - 3 \<rparr>)"
  by (simp add: scratch_under_valued_def getitem_def example_amethysts_def)

lemma stop_loss_starfruit:
  "stop_loss True example_starfruit =
     Inr (example_starfruit\<lparr> orders := [Order ''STARFRUIT'' 5001 (- 3)],
            expected_position := 12, sum_sell_qty := - 3 \<rparr>)"
  by (simp add: stop_loss_def getitem_def example_starfruit_def)

lemma stop_loss_after_scratch_amethysts:
  "stop_loss True (example_amethysts\<lparr> orders := [Order ''AMETHYSTS'' 10002 (- 3)],
            expected_position := - 3, sum_sell_qty := - 3 \<rparr>) =
     Inr (example_amethysts\<lparr> orders := [Order ''AMETHYSTS'' 10002 (- 3)],
            expected_position := - 3, sum_sell_qty := - 3 \<rparr>)"
  by (simp add: stop_loss_def getitem_def example_amethysts_def)

theorem scratch_and_stop_loss_exclusive_witness:
  "(\<exists>s1. scratch_under_valued False example_amethysts = Inr s1
        \<and> orders s1 \<noteq> orders example_amethysts
        \<and> - sl_inventory example_amethysts \<le> position example_amethysts
        \<and> position example_amethysts \<le> sl_inventory example_amethysts)
   \<and> (\<exists>s2. stop_loss True example_starfruit = Inr s2
        \<and> orders s2 \<noteq> orders example_starfruit
        \<and> sl_inventory example_starfruit < \<bar>position example_starfruit\<bar>)
   \<and> (\<exists>s1 s2. scratch_under_valued False example_amethysts = Inr s1
        \<and> stop_loss True s1 = Inr s2
        \<and> (orders s1 = orders example_amethysts \<or> orders s2 = orders s1))"
proof -
  let ?a1 = "example_amethysts\<lparr> orders := [Order ''AMETHYSTS'' 10002 (- 3)],
               expected_position := - 3, sum_sell_qty := - 3 \<rparr>"
  let ?f2 = "example_starfruit\<lparr> orders := [Order ''STARFRUIT'' 5001 (- 3)],
               expected_position := 12, sum_sell_qty := - 3 \<rparr>"
  have a: "scratch_under_valued False example_amethysts = Inr ?a1
           \<and> orders ?a1 \<noteq> orders example_amethysts"
    using scratch_amethysts by (simp add: example_amethysts_def)
  have b: "stop_loss True example_starfruit = Inr ?f2
           \<and> orders ?f2 \<noteq> orders example_starfruit"
    using stop_loss_starfruit by (simp add: example_starfruit_def)
  have c: "scratch_under_valued False example_amethysts = Inr ?a1
           \<and> stop_loss True ?a1 = Inr ?a1"
    using scratch_amethysts stop_loss_after_scratch_amethysts by simp
  note t1 = scratch_and_stop_loss_exclusive [of False example_amethysts True]
  note t2 = scratch_and_stop_loss_exclusive [of False example_starfruit True]
  from t1 a have "- sl_inventory example_amethysts \<le> position example_amethysts
        \<and> position example_amethysts \<le> sl_inventory example_amethysts" by blast
  moreover from t2 b have "sl_inventory example_starfruit < \<bar>position example_starfruit\<bar>"
    by blast
  moreover from t1 c have "orders ?a1 = orders example_amethysts \<or> orders ?a1 = orders ?a1"
    by blast
  ultimately show ?thesis using a b c by blast
qed

section \<open>Regression on a linear history\<close>

















section \<open>Basket fair value\<close>

lemma truediv_eq_Inr: "truediv a b = Inr q \<longleftrightarrow> b \<noteq> 0 \<and> q = a / b"
  by (auto simp: truediv_def)

lemma BasketTrading_init_fields:
  assumes "BasketTrading_init state bc cc sc = Inr t"
  shows "fair_value (basket t) = mid_vwap (basket t)"
    and "premium t = mid_vwap (basket t) - basket_nav t"
    and "premium_mean t = PREMIUM_MEAN sc"
    and "premium_std t \<noteq> 0"
    and "z_score t = (premium t - premium_mean t) / premium_std t"
    and "position_limit (basket t) = basket_limit t"
  using assms
  by (auto simp: BasketTrading_init_def ebind_eq_Inr Let_def truediv_eq_Inr)

text \<open>
  C9. For every snapshot from which the constructor of \<^verbatim>\<open>BasketTrading\<close> returns and in
  which the basket premium (basket mid-VWAP minus constituent NAV) equals the configured
  premium mean, the z-score is zero and \<^verbatim>\<open>calculate_fair_value\<close> applies a pricing
  correction of exactly zero: the basket fair value stays equal to the basket mid-VWAP.
\<close>

theorem zero_premium_deviation_no_correction:
  assumes init: "BasketTrading_init state bc cc sc = Inr t"
    and mean: "mid_vwap (basket t) - basket_nav t = PREMIUM_MEAN sc"
  shows "premium t = premium_mean t \<and> z_score t = 0
         \<and> fair_value (basket (calculate_fair_value t)) = fair_value (basket t)
         \<and> fair_value (basket (calculate_fair_value t)) = mid_vwap (basket t)"
proof -
  note f = BasketTrading_init_fields [OF init]
  have p: "premium t = premium_mean t" using f(2,3) mean by simp
  then have z: "z_score t = 0" using f(5) by simp
  have "fair_value (basket (calculate_fair_value t)) = fair_value (basket t)"
    by (simp add: calculate_fair_value_def Let_def p)
  then show ?thesis using p z f(1) by simp
qed

lemma example_basket_init:
  "\<exists>t. BasketTrading_init example_state (config_PRODUCT ''GIFT_BASKET'')
          (map (\<lambda>i. (symbols ! i, config_PRODUCT (symbols ! i))) [4 ..< 7])
          config_STRATEGY_GIFT_BASKET = Inr t
       \<and> basket t = example_gift_basket \<and> basket_nav t = 70000 \<and> sl_target t = 0
       \<and> premium t = 385 \<and> premium_mean t = 385"
  by (simp add: BasketTrading_init_def MarketMaking_init_def Strategy_init_def
      example_state_def config_PRODUCT_def config_STRATEGY_GIFT_BASKET_def symbols_def
      truediv_def getitem_def MarketMaking.defs Strategy.defs upt_rec numeral_nat
      example_gift_basket_def)

theorem zero_premium_deviation_no_correction_witness:
  "\<exists>t. BasketTrading_init example_state (config_PRODUCT ''GIFT_BASKET'')
          (map (\<lambda>i. (symbols ! i, config_PRODUCT (symbols ! i))) [4 ..< 7])
          config_STRATEGY_GIFT_BASKET = Inr t
       \<and> mid_vwap (basket t) - basket_nav t = PREMIUM_MEAN config_STRATEGY_GIFT_BASKET
       \<and> z_score t = 0
       \<and> fair_value (basket (calculate_fair_value t)) = 70385"
proof -
  obtain t where
    init: "BasketTrading_init example_state (config_PRODUCT ''GIFT_BASKET'')
             (map (\<lambda>i. (symbols ! i, config_PRODUCT (symbols ! i))) [4 ..< 7])
             config_STRATEGY_GIFT_BASKET = Inr t"
    and b: "basket t = example_gift_basket" and nav: "basket_nav t = 70000"
    using example_basket_init by blast
  have mid: "mid_vwap (basket t) = 70385"
    by (simp add: b example_gift_basket_def)
  have mean: "mid_vwap (basket t) - basket_nav t = PREMIUM_MEAN config_STRATEGY_GIFT_BASKET"
    by (simp add: mid nav config_STRATEGY_GIFT_BASKET_def)
  show ?thesis
    using init mean mid zero_premium_deviation_no_correction [OF init mean] by auto
qed

section \<open>Position limits\<close>

lemma total_quantity_append [simp]:
  "total_quantity (os @ os') = total_quantity os + total_quantity os'"
  by (simp add: total_quantity_def)

lemma total_quantity_simps [simp]:
  "total_quantity [] = 0" "total_quantity (Order sy p q # os) = q + total_quantity os"
  by (simp_all add: total_quantity_def)

lemma getitem_eq_Inr: "getitem d k = Inr v \<longleftrightarrow> map_of d k = Some v"
  by (simp add: getitem_def split: option.splits)

lemma Inr_eq_ebind: "Inr y = ebind m f \<longleftrightarrow> (\<exists>x. m = Inr x \<and> Inr y = f x)"
  by (cases m) auto

lemma bids_nonneg:
  assumes "book_signed s" "getitem (bids s) k = Inr q"
  shows "0 \<le> q"
proof -
  have "(k, q) \<in> set (bids s)" using assms(2) by (simp add: getitem_eq_Inr map_of_SomeD)
  then show ?thesis using assms(1) by (auto simp: book_signed_def list_all_iff)
qed

lemma asks_nonpos:
  assumes "book_signed s" "getitem (asks s) k = Inr q"
  shows "q \<le> 0"
proof -
  have "(k, q) \<in> set (asks s)" using assms(2) by (simp add: getitem_eq_Inr map_of_SomeD)
  then show ?thesis using assms(1) by (auto simp: book_signed_def list_all_iff)
qed

lemma sell_size_bounds:
  "min b 0 \<le> max a b" "min (max a b) 0 \<le> max c (0::int)"
  by auto

lemma buy_size_bounds:
  "min a b \<le> max b 0" "min c 0 \<le> max (min a b) (0::int)"
  by auto

lemma scratch_effect:
  assumes "scratch_under_valued mv s = Inr s1"
  shows "same_frame s s1 \<and> sl_inventory s1 = sl_inventory s
    \<and> min (- position_limit s - min (position s) 0) 0 \<le> expected_position s1 - expected_position s
    \<and> expected_position s1 - expected_position s \<le> max (position_limit s - max (position s) 0) 0
    \<and> (expected_position s1 = expected_position s
        \<or> (- sl_inventory s \<le> position s \<and> position s \<le> sl_inventory s))"
  using assms [symmetric] unfolding scratch_under_valued_def Let_def
  by (simp add: Inr_eq_ebind split: if_splits)
     (clarsimp simp: same_frame_def sell_size_bounds buy_size_bounds)+

lemma stop_loss_effect:
  assumes "stop_loss iw s = Inr s2"
  shows "same_frame s s2
    \<and> (expected_position s2 = expected_position s
       \<or> (sl_inventory s < position s
           \<and> (\<exists>q. getitem (bids s) (best_bid s) = Inr q
                 \<and> expected_position s2
                     = expected_position s + max (- q) (- position s + sl_inventory s)))
       \<or> (position s < - sl_inventory s
           \<and> (\<exists>q. getitem (asks s) (best_ask s) = Inr q
                 \<and> expected_position s2
                     = expected_position s + min (- q) (- position s - sl_inventory s))))"
  using assms [symmetric] unfolding stop_loss_def Let_def
  by (simp add: Inr_eq_ebind split: if_splits)
     (clarsimp simp: same_frame_def)+

lemma scratch_bound:
  assumes s1: "scratch_under_valued mv s = Inr s1"
    and e: "expected_position s = position s" and pos: "\<bar>position s\<bar> \<le> position_limit s"
  shows "within_limit s (expected_position s1)"
proof -
  have "min (- position_limit s - min (position s) 0) 0 \<le> expected_position s1 - position s"
    and "expected_position s1 - position s \<le> max (position_limit s - max (position s) 0) 0"
    using scratch_effect [OF s1] e by simp_all
  then show ?thesis using pos unfolding within_limit_def by linarith
qed

lemma stop_loss_bound:
  assumes sl: "stop_loss iw s = Inr s2"
    and signed: "book_signed s"
    and pos: "\<bar>position s\<bar> \<le> position_limit s"
    and band: "- position_limit s \<le> sl_inventory s"
    and e: "within_limit s (expected_position s)"
    and excl: "expected_position s = position s
               \<or> (- sl_inventory s \<le> position s \<and> position s \<le> sl_inventory s)"
  shows "within_limit s (expected_position s2)"
proof -
  consider (idle) "expected_position s2 = expected_position s"
    | (sell) q where "sl_inventory s < position s" "getitem (bids s) (best_bid s) = Inr q"
        "expected_position s2 = expected_position s + max (- q) (- position s + sl_inventory s)"
    | (buy) q where "position s < - sl_inventory s" "getitem (asks s) (best_ask s) = Inr q"
        "expected_position s2 = expected_position s + min (- q) (- position s - sl_inventory s)"
    using stop_loss_effect [OF sl] by blast
  then show ?thesis
  proof cases
    case idle
    then show ?thesis using e by simp
  next
    case (sell q)
    have "0 \<le> q" using bids_nonneg [OF signed sell(2)] .
    moreover have "expected_position s = position s" using excl sell(1) by linarith
    ultimately show ?thesis using sell(1,3) pos band unfolding within_limit_def by linarith
  next
    case (buy q)
    have "q \<le> 0" using asks_nonpos [OF signed buy(2)] .
    moreover have "expected_position s = position s" using excl buy(1) by linarith
    ultimately show ?thesis using buy(1,3) pos band unfolding within_limit_def by linarith
  qed
qed

lemma quote_sizes_keep_limit:
  assumes "within_limit s e" "0 \<le> b" "b \<le> max (position_limit s - e) 0"
    "a \<le> 0" "min (- position_limit s - e) 0 \<le> a"
  shows "within_limit s (e + b + a)"
  using assms unfolding within_limit_def by linarith

lemma bid_limit_of_bounds:
  "0 \<le> bid_limit_of s" "bid_limit_of s \<le> max (position_limit s - expected_position s) 0"
  unfolding bid_limit_of_def by linarith+

lemma ask_limit_of_bounds:
  "ask_limit_of s \<le> 0" "min (- position_limit s - expected_position s) 0 \<le> ask_limit_of s"
  unfolding ask_limit_of_def by linarith+

lemma quote_size_bounds:
  "(0::int) \<le> min (max (l - k) 0) l \<longleftrightarrow> 0 \<le> l" "min (max (l - k) 0) l \<le> (l::int)"
  "max (min (m - k) 0) m \<le> (0::int) \<longleftrightarrow> m \<le> 0" "(m::int) \<le> max (min (m - k) 0) m"
  by linarith+

lemma market_make_orders:
  "\<exists>bp b ap a. orders (market_make s) = orders s @ [Order (symbol s) bp b, Order (symbol s) ap a]
      \<and> 0 \<le> b \<and> b \<le> bid_limit_of s \<and> a \<le> 0 \<and> ask_limit_of s \<le> a"
  using bid_limit_of_bounds(1) [of s] ask_limit_of_bounds(1) [of s]
  unfolding market_make_def Let_def
  by (simp add: quote_size_bounds)

lemma market_make_frame:
  "expected_position (market_make s) = expected_position s"
  "position (market_make s) = position s"
  "position_limit (market_make s) = position_limit s"
  by (simp_all add: market_make_def Let_def)

lemma ledger_ok_frame:
  "same_frame s s' \<Longrightarrow> ledger_ok s \<Longrightarrow> ledger_ok s'"
  unfolding same_frame_def ledger_ok_def by linarith

lemma ledger_fresh_ok: "ledger_fresh s \<Longrightarrow> ledger_ok s"
  by (simp add: ledger_fresh_def ledger_ok_def)

lemma same_frame_trans: "same_frame s s' \<Longrightarrow> same_frame s' s'' \<Longrightarrow> same_frame s s''"
  by (simp add: same_frame_def)

lemma within_limit_frame: "same_frame s s' \<Longrightarrow> within_limit s' x = within_limit s x"
  by (simp add: same_frame_def within_limit_def)

lemma market_make_bound:
  assumes "ledger_ok s" "within_limit s (expected_position s)"
  shows "within_limit s (position s + total_quantity (orders (market_make s)))"
proof -
  obtain bp b ap a where
    o: "orders (market_make s) = orders s @ [Order (symbol s) bp b, Order (symbol s) ap a]"
    and b: "0 \<le> b" "b \<le> bid_limit_of s" and a: "a \<le> 0" "ask_limit_of s \<le> a"
    using market_make_orders by blast
  have "within_limit s (expected_position s + b + a)"
    using assms(2) b a bid_limit_of_bounds(2) [of s] ask_limit_of_bounds(2) [of s]
    by (intro quote_sizes_keep_limit) linarith+
  then show ?thesis using assms(1) by (simp add: o ledger_ok_def algebra_simps)
qed

lemma market_making_pipeline_bound:
  assumes fresh: "ledger_fresh s"
    and pos: "\<bar>position s\<bar> \<le> position_limit s"
    and band: "- position_limit s \<le> sl_inventory s"
    and signed: "book_signed s"
    and s1: "scratch_under_valued mv s = Inr s1"
    and s2: "stop_loss iw s1 = Inr s2"
  shows "within_limit s (expected_position s1)"
    and "within_limit s (expected_position s2)"
    and "within_limit s (expected_position (market_make s2))"
    and "within_limit s (position s + total_quantity (orders (market_make s2)))"
proof -
  have f1: "same_frame s s1" and sl1: "sl_inventory s1 = sl_inventory s"
    and x1: "expected_position s1 = expected_position s
        \<or> (- sl_inventory s \<le> position s \<and> position s \<le> sl_inventory s)"
    using scratch_effect [OF s1] by simp_all
  have f2: "same_frame s1 s2" using stop_loss_effect [OF s2] by simp
  have e0: "expected_position s = position s" using fresh by (simp add: ledger_fresh_def)
  show b1: "within_limit s (expected_position s1)"
    using scratch_bound [OF s1 e0 pos] .
  have l1: "position_limit s1 = position_limit s" and p1: "position s1 = position s"
    using f1 by (simp_all add: same_frame_def)
  have signed1: "book_signed s1"
    using signed f1 by (simp add: book_signed_def same_frame_def)
  have excl: "expected_position s1 = position s1
               \<or> (- sl_inventory s1 \<le> position s1 \<and> position s1 \<le> sl_inventory s1)"
    using x1 e0 p1 sl1 by auto
  have "within_limit s1 (expected_position s2)"
  proof (rule stop_loss_bound [OF s2 signed1 _ _ _ excl])
    show "\<bar>position s1\<bar> \<le> position_limit s1" using pos l1 p1 by simp
    show "- position_limit s1 \<le> sl_inventory s1" using band l1 sl1 by simp
    show "within_limit s1 (expected_position s1)" using b1 within_limit_frame [OF f1] by simp
  qed
  then show b2: "within_limit s (expected_position s2)"
    using within_limit_frame [OF f1] by simp
  then show "within_limit s (expected_position (market_make s2))"
    by (simp add: market_make_frame)
  have f: "same_frame s s2" using same_frame_trans [OF f1 f2] .
  have "ledger_ok s2"
    using ledger_ok_frame [OF f ledger_fresh_ok [OF fresh]] .
  moreover have "within_limit s2 (expected_position s2)"
    using b2 within_limit_frame [OF f] by simp
  ultimately have "within_limit s2 (position s2 + total_quantity (orders (market_make s2)))"
    by (rule market_make_bound)
  then show "within_limit s (position s + total_quantity (orders (market_make s2)))"
    using within_limit_frame [OF f] f by (simp add: same_frame_def)
qed

lemma buy_step_frame:
  "same_frame s (s\<lparr> orders := orders s @ [Order sy p q],
                     expected_position := expected_position s + q,
                     sum_buy_qty := sum_buy_qty s + q \<rparr>)"
  by (simp add: same_frame_def)

lemma sell_step_frame:
  "same_frame s (s\<lparr> orders := orders s @ [Order sy p q],
                     expected_position := expected_position s + q,
                     sum_sell_qty := sum_sell_qty s + q \<rparr>)"
  by (simp add: same_frame_def)

lemma long_take_keeps_limit:
  "within_limit s e \<Longrightarrow> within_limit s (e + max (min a (position_limit s - max e 0)) 0)"
  unfolding within_limit_def by linarith

lemma short_take_keeps_limit:
  "within_limit s e \<Longrightarrow> within_limit s (e + min (max a (- position_limit s - min e 0)) 0)"
  unfolding within_limit_def by linarith

lemma long_arbitrage_loop_inv:
  assumes "within_limit s (expected_position s)"
  shows "same_frame s (long_arbitrage_loop xs s)
         \<and> within_limit s (expected_position (long_arbitrage_loop xs s))"
  using assms
proof (induction xs arbitrary: s)
  case Nil
  then show ?case by (simp add: same_frame_def)
next
  case (Cons x xs)
  obtain price quantity where x: "x = (price, quantity)" by (cases x)
  define q where "q = max (min (- quantity) (position_limit s - max (expected_position s) 0)) 0"
  define s' where "s' = s\<lparr> orders := orders s @ [Order (symbol s) price q],
                             expected_position := expected_position s + q,
                             sum_buy_qty := sum_buy_qty s + q \<rparr>"
  show ?case
  proof (cases "min_edge s \<le> otc_bid s - real_of_int price - effective_cost_export s")
    case False
    then have "long_arbitrage_loop (x # xs) s = s" by (simp add: x)
    then show ?thesis using Cons.prems by (simp add: same_frame_def)
  next
    case True
    have step: "long_arbitrage_loop (x # xs) s = long_arbitrage_loop xs s'"
      using True by (simp add: x Let_def q_def s'_def)
    have f: "same_frame s s'" unfolding s'_def by (rule buy_step_frame)
    have e: "expected_position s' = expected_position s + q" by (simp add: s'_def)
    have w: "within_limit s (expected_position s')"
      unfolding e q_def by (rule long_take_keeps_limit [OF Cons.prems])
    then have "within_limit s' (expected_position s')"
      using within_limit_frame [OF f] by simp
    from Cons.IH [OF this]
    have ih1: "same_frame s' (long_arbitrage_loop xs s')"
      and ih2: "within_limit s' (expected_position (long_arbitrage_loop xs s'))" by simp_all
    show ?thesis
      unfolding step using same_frame_trans [OF f ih1] ih2 within_limit_frame [OF f] by simp
  qed
qed

lemma short_arbitrage_loop_inv:
  assumes "short_arbitrage_loop xs s = Inr s1" "within_limit s (expected_position s)"
  shows "same_frame s s1 \<and> within_limit s (expected_position s1)"
  using assms
proof (induction xs arbitrary: s)
  case Nil
  then show ?case by (simp add: same_frame_def)
next
  case (Cons x xs)
  obtain price quantity where x: "x = (price, quantity)" by (cases x)
  show ?case
  proof (cases "min_edge s \<le> real_of_int price - otc_ask s - cost_import s")
    case False
    then have "short_arbitrage_loop (x # xs) s = Inr s" by (simp add: x)
    then have "s1 = s" using Cons.prems(1) by simp
    then show ?thesis using Cons.prems(2) by (simp add: same_frame_def)
  next
    case True
    then obtain v where g: "getitem (bids s) (best_bid s) = Inr v"
      using Cons.prems(1) by (cases "getitem (bids s) (best_bid s)") (simp_all add: x)
    define q where "q = min (max (- v) (- position_limit s - min (expected_position s) 0)) 0"
    define s' where "s' = s\<lparr> orders := orders s @ [Order (symbol s) (best_bid s) q],
                               expected_position := expected_position s + q,
                               sum_sell_qty := sum_sell_qty s + q \<rparr>"
    have "short_arbitrage_loop (x # xs) s = short_arbitrage_loop xs s'"
      using True g by (simp add: x Let_def q_def s'_def)
    then have run: "short_arbitrage_loop xs s' = Inr s1"
      using Cons.prems(1) by simp
    have f: "same_frame s s'" unfolding s'_def by (rule sell_step_frame)
    have e: "expected_position s' = expected_position s + q" by (simp add: s'_def)
    have w: "within_limit s (expected_position s')"
      unfolding e q_def by (rule short_take_keeps_limit [OF Cons.prems(2)])
    then have "within_limit s' (expected_position s')"
      using within_limit_frame [OF f] by simp
    from Cons.IH [OF run this]
    have ih1: "same_frame s' s1" and ih2: "within_limit s' (expected_position s1)" by simp_all
    show ?thesis
      using same_frame_trans [OF f ih1] ih2 within_limit_frame [OF f] by simp
  qed
qed

lemma arbitrage_exchange_enter_inv:
  assumes "arbitrage_exchange_enter s = Inr s1" "within_limit s (expected_position s)"
  shows "same_frame s s1 \<and> within_limit s (expected_position s1)"
proof -
  have "Inr s1 = arbitrage_exchange_enter s" using assms(1) by simp
  then have "s1 = long_arbitrage_loop (asks s) s
      \<or> Inr s1 = short_arbitrage_loop (bids s) s \<or> s1 = s"
    unfolding arbitrage_exchange_enter_def Let_def
    by (simp split: if_splits)
  then consider "s1 = long_arbitrage_loop (asks s) s"
    | "short_arbitrage_loop (bids s) s = Inr s1" | "s1 = s"
    by metis
  then show ?thesis
  proof cases
    case 1
    then show ?thesis using long_arbitrage_loop_inv [OF assms(2)] by simp
  next
    case 2
    then show ?thesis using short_arbitrage_loop_inv [OF _ assms(2)] by simp
  next
    case 3
    then show ?thesis using assms(2) by (simp add: same_frame_def)
  qed
qed

lemma OTCArbitrage_market_make_bound:
  assumes "ledger_ok s" "within_limit s (expected_position s)"
  shows "within_limit s
           (position s + total_quantity (orders (arbitrage_otc_exit (OTCArbitrage_market_make s))))"
proof -
  have "within_limit s (expected_position s + bid_limit_of s + ask_limit_of s)"
    using assms(2) bid_limit_of_bounds [of s] ask_limit_of_bounds [of s]
    by (intro quote_sizes_keep_limit) linarith+
  then show ?thesis
    using assms(1)
    by (simp add: arbitrage_otc_exit_def OTCArbitrage_market_make_def Let_def ledger_ok_def
        algebra_simps)
qed

lemma arbitrage_pipeline_bound:
  assumes fresh: "ledger_fresh s"
    and pos: "\<bar>position s\<bar> \<le> position_limit s"
    and run: "aggregate_orders_conversions s = Inr s'"
  shows "within_limit s (position s + total_quantity (orders s'))"
proof -
  obtain s1 where s1: "arbitrage_exchange_enter s = Inr s1"
    and s': "s' = arbitrage_otc_exit (OTCArbitrage_market_make s1)"
    using run unfolding aggregate_orders_conversions_def by (auto simp: ebind_eq_Inr)
  have w0: "within_limit s (expected_position s)"
    using fresh pos by (auto simp: ledger_fresh_def within_limit_def)
  have f: "same_frame s s1" and w: "within_limit s (expected_position s1)"
    using arbitrage_exchange_enter_inv [OF s1 w0] by simp_all
  have "ledger_ok s1" using ledger_ok_frame [OF f ledger_fresh_ok [OF fresh]] .
  moreover have "within_limit s1 (expected_position s1)"
    using w within_limit_frame [OF f] by simp
  ultimately have "within_limit s1 (position s1 + total_quantity (orders s'))"
    unfolding s' by (rule OTCArbitrage_market_make_bound)
  then show ?thesis using within_limit_frame [OF f] f by (simp add: same_frame_def)
qed

lemma calculate_fair_value_frame:
  "same_frame (basket t) (basket (calculate_fair_value t))"
  "sl_inventory (basket (calculate_fair_value t)) = sl_inventory (basket t)"
  "sl_target (calculate_fair_value t) = sl_target t"
  by (simp_all add: calculate_fair_value_def Let_def same_frame_def)

lemma aggressive_stop_loss_effect:
  "same_frame (basket t) (basket (aggressive_stop_loss t))
   \<and> (expected_position (basket (aggressive_stop_loss t)) = expected_position (basket t)
      \<or> (sl_inventory (basket t) < position (basket t)
          \<and> expected_position (basket (aggressive_stop_loss t))
              = expected_position (basket t)
                + max (- bid_volume (basket t)) (sl_target t - position (basket t)))
      \<or> (position (basket t) < - sl_inventory (basket t)
          \<and> expected_position (basket (aggressive_stop_loss t))
              = expected_position (basket t)
                + min (- ask_volume (basket t)) (- sl_target t - position (basket t))))"
  unfolding aggressive_stop_loss_def Let_def
  by (simp add: same_frame_def)

lemma aggressive_stop_loss_bound:
  assumes pos: "\<bar>position (basket t)\<bar> \<le> position_limit (basket t)"
    and target: "\<bar>sl_target t\<bar> \<le> position_limit (basket t)"
    and vol: "0 \<le> bid_volume (basket t)" "ask_volume (basket t) \<le> 0"
    and e: "within_limit (basket t) (expected_position (basket t))"
    and excl: "expected_position (basket t) = position (basket t)
               \<or> (- sl_inventory (basket t) \<le> position (basket t)
                   \<and> position (basket t) \<le> sl_inventory (basket t))"
  shows "within_limit (basket t) (expected_position (basket (aggressive_stop_loss t)))"
proof -
  let ?b = "basket t" and ?b' = "basket (aggressive_stop_loss t)"
  consider (idle) "expected_position ?b' = expected_position ?b"
    | (sell) "sl_inventory ?b < position ?b"
        "expected_position ?b' = expected_position ?b
           + max (- bid_volume ?b) (sl_target t - position ?b)"
    | (buy) "position ?b < - sl_inventory ?b"
        "expected_position ?b' = expected_position ?b
           + min (- ask_volume ?b) (- sl_target t - position ?b)"
    using aggressive_stop_loss_effect [of t] by blast
  then show ?thesis
  proof cases
    case idle
    then show ?thesis using e by simp
  next
    case sell
    have "expected_position ?b = position ?b" using excl sell(1) by linarith
    then show ?thesis using sell pos target vol unfolding within_limit_def by linarith
  next
    case buy
    have "expected_position ?b = position ?b" using excl buy(1) by linarith
    then show ?thesis using buy pos target vol unfolding within_limit_def by linarith
  qed
qed

lemma basket_pipeline_bound:
  assumes fresh: "ledger_fresh (basket t)"
    and pos: "\<bar>position (basket t)\<bar> \<le> position_limit (basket t)"
    and target: "\<bar>sl_target t\<bar> \<le> position_limit (basket t)"
    and vol: "0 \<le> bid_volume (basket t)" "ask_volume (basket t) \<le> 0"
    and run: "aggregate_basket_orders t = Inr t'"
  shows "within_limit (basket t) (expected_position (basket t'))"
    and "within_limit (basket t) (position (basket t) + total_quantity (orders (basket t')))"
proof -
  define t1 where "t1 = calculate_fair_value t"
  obtain b1 where b1: "scratch_under_valued True (basket t1) = Inr b1"
    and t': "t' = (aggressive_stop_loss (t1\<lparr> basket := b1 \<rparr>))
                   \<lparr> basket := market_make (basket (aggressive_stop_loss (t1\<lparr> basket := b1 \<rparr>))) \<rparr>"
    using run unfolding aggregate_basket_orders_def Let_def t1_def
    by (auto simp: ebind_eq_Inr)
  define t2 where "t2 = t1\<lparr> basket := b1 \<rparr>"
  define b2 where "b2 = basket (aggressive_stop_loss t2)"
  have bt': "basket t' = market_make b2" by (simp add: t' t2_def b2_def)
  have f0: "same_frame (basket t) (basket t1)"
    and sl0: "sl_inventory (basket t1) = sl_inventory (basket t)"
    and tg0: "sl_target t1 = sl_target t"
    unfolding t1_def by (rule calculate_fair_value_frame)+
  have f1: "same_frame (basket t1) b1" and sl1: "sl_inventory b1 = sl_inventory (basket t1)"
    and x1: "expected_position b1 = expected_position (basket t1)
        \<or> (- sl_inventory (basket t1) \<le> position (basket t1)
            \<and> position (basket t1) \<le> sl_inventory (basket t1))"
    using scratch_effect [OF b1] by simp_all
  have f01: "same_frame (basket t) b1" using same_frame_trans [OF f0 f1] .
  have bt2: "basket t2 = b1" and tg2: "sl_target t2 = sl_target t"
    by (simp_all add: t2_def tg0)
  have e0: "expected_position (basket t) = position (basket t)"
    using fresh by (simp add: ledger_fresh_def)
  have e1: "expected_position (basket t1) = position (basket t1)"
    and p1: "\<bar>position (basket t1)\<bar> \<le> position_limit (basket t1)"
    using e0 pos f0 fresh
    by (simp_all add: same_frame_def ledger_fresh_def t1_def calculate_fair_value_def Let_def)
  have w1: "within_limit (basket t1) (expected_position b1)"
    using scratch_bound [OF b1 e1 p1] .
  have fr: "position b1 = position (basket t)" "position_limit b1 = position_limit (basket t)"
    "bid_volume b1 = bid_volume (basket t)" "ask_volume b1 = ask_volume (basket t)"
    "position (basket t1) = position (basket t)"
    using f01 f0 by (simp_all add: same_frame_def)
  have "within_limit (basket t2) (expected_position (basket (aggressive_stop_loss t2)))"
  proof (rule aggressive_stop_loss_bound)
    show "\<bar>position (basket t2)\<bar> \<le> position_limit (basket t2)"
      using pos by (simp add: bt2 fr)
    show "\<bar>sl_target t2\<bar> \<le> position_limit (basket t2)"
      using target by (simp add: bt2 tg2 fr)
    show "0 \<le> bid_volume (basket t2)" "ask_volume (basket t2) \<le> 0"
      using vol by (simp_all add: bt2 fr)
    show "within_limit (basket t2) (expected_position (basket t2))"
      using w1 within_limit_frame [OF f1] by (simp add: bt2)
    show "expected_position (basket t2) = position (basket t2)
           \<or> (- sl_inventory (basket t2) \<le> position (basket t2)
               \<and> position (basket t2) \<le> sl_inventory (basket t2))"
      using x1 e1 sl1 fr by (auto simp: bt2)
  qed
  then have w2: "within_limit (basket t) (expected_position b2)"
    using within_limit_frame [OF f01] by (simp add: bt2 b2_def)
  have f2: "same_frame b1 b2"
    using aggressive_stop_loss_effect [of t2] by (simp add: bt2 b2_def)
  have f: "same_frame (basket t) b2" using same_frame_trans [OF f01 f2] .
  show "within_limit (basket t) (expected_position (basket t'))"
    using w2 by (simp add: bt' market_make_frame)
  have "ledger_ok b2" using ledger_ok_frame [OF f ledger_fresh_ok [OF fresh]] .
  moreover have "within_limit b2 (expected_position b2)"
    using w2 within_limit_frame [OF f] by simp
  ultimately have "within_limit b2 (position b2 + total_quantity (orders (market_make b2)))"
    by (rule market_make_bound)
  then show "within_limit (basket t)
               (position (basket t) + total_quantity (orders (basket t')))"
    using within_limit_frame [OF f] f by (simp add: bt' same_frame_def)
qed

lemma gift_basket_scratch:
  "scratch_under_valued True example_gift_basket = Inr example_gift_basket"
  by (simp add: scratch_under_valued_def example_gift_basket_def)

lemma gift_basket_market_make:
  "orders (market_make example_gift_basket)
     = [Order ''GIFT_BASKET'' 70383 58, Order ''GIFT_BASKET'' 70387 (- 58)]"
  by (simp add: market_make_def bid_limit_of_def ask_limit_of_def example_gift_basket_def)

lemma example_basket_orders:
  assumes b: "basket t = example_gift_basket" and p: "premium t = premium_mean t"
  shows "\<exists>t'. aggregate_basket_orders t = Inr t'
     \<and> orders (basket t') = [Order ''GIFT_BASKET'' 70383 58, Order ''GIFT_BASKET'' 70387 (- 58)]"
proof -
  define t1 where "t1 = calculate_fair_value t"
  have b1: "basket t1 = example_gift_basket"
    unfolding t1_def calculate_fair_value_def Let_def
    by (simp add: p b)
  define t2 where "t2 = aggressive_stop_loss (t1\<lparr> basket := example_gift_basket \<rparr>)"
  have "aggressive_stop_loss (t1\<lparr> basket := example_gift_basket \<rparr>)
          = t1\<lparr> basket := example_gift_basket \<rparr>"
    unfolding aggressive_stop_loss_def Let_def
    by (simp add: example_gift_basket_def)
  then have b2: "basket t2 = example_gift_basket"
    by (simp add: t2_def)
  have "aggregate_basket_orders t = Inr (t2\<lparr> basket := market_make (basket t2) \<rparr>)"
    unfolding aggregate_basket_orders_def Let_def t1_def [symmetric]
    by (simp add: b1 gift_basket_scratch t2_def)
  then show ?thesis
    by (simp add: b2 gift_basket_market_make)
qed

lemma aggregate_orders_amethysts:
  "\<exists>s'. aggregate_orders True example_amethysts = Inr s'
        \<and> orders s' = [Order ''AMETHYSTS'' 10002 (- 3), Order ''AMETHYSTS'' 9998 20,
                        Order ''AMETHYSTS'' 10002 (- 14)]"
  unfolding aggregate_orders_def
  by (simp add: scratch_amethysts stop_loss_after_scratch_amethysts)
     (simp add: market_make_def bid_limit_of_def ask_limit_of_def example_amethysts_def)

lemma short_arbitrage_loop_orchids:
  "\<exists>a1. short_arbitrage_loop (bids example_orchids) example_orchids = Inr a1
        \<and> orders a1 = [Order ''ORCHIDS'' 1100 (- 5), Order ''ORCHIDS'' 1100 (- 5)]
        \<and> expected_position a1 = - 10"
  by (simp add: getitem_def example_orchids_def)

lemma aggregate_orders_conversions_orchids:
  "\<exists>a'. aggregate_orders_conversions example_orchids = Inr a'
        \<and> orders a' = [Order ''ORCHIDS'' 1100 (- 5), Order ''ORCHIDS'' 1100 (- 5),
                        Order ''ORCHIDS'' 1086 100, Order ''ORCHIDS'' 1096 (- 90)]
        \<and> conversions a' = 0"
  by (simp add: aggregate_orders_conversions_def arbitrage_exchange_enter_def
      OTCArbitrage_market_make_def arbitrage_otc_exit_def
      bid_limit_of_def ask_limit_of_def getitem_def example_orchids_def)

lemma example_amethysts_ready:
  "ledger_fresh example_amethysts \<and> \<bar>position example_amethysts\<bar> \<le> position_limit example_amethysts
   \<and> - position_limit example_amethysts \<le> sl_inventory example_amethysts
   \<and> book_signed example_amethysts"
  by (simp add: ledger_fresh_def book_signed_def example_amethysts_def)

lemma example_orchids_ready:
  "ledger_fresh example_orchids \<and> \<bar>position example_orchids\<bar> \<le> position_limit example_orchids"
  by (simp add: ledger_fresh_def example_orchids_def)

lemma example_gift_basket_ready:
  "ledger_fresh example_gift_basket
   \<and> \<bar>position example_gift_basket\<bar> \<le> position_limit example_gift_basket
   \<and> \<bar>0\<bar> \<le> position_limit example_gift_basket
   \<and> 0 \<le> bid_volume example_gift_basket \<and> ask_volume example_gift_basket \<le> 0"
  by (simp add: ledger_fresh_def example_gift_basket_def)

text \<open>
  C1. For every strategy object as its constructor leaves it (no orders yet, expected
  position equal to the position) whose position is within the position limit, on a
  book with the host's sign convention: if every order emitted in the tick is fully
  filled, the resulting position \<open>position + total_quantity orders\<close> is within
  \<open>[-position_limit, +position_limit]\<close>, and after each sizing step (scratch, stop loss,
  aggressive stop loss, each arbitrage take, market making) the expected position is
  within the same bounds. This holds for the three pipelines of the code:
  \<^verbatim>\<open>MarketMaking.aggregate_orders\<close> (also used by \<^verbatim>\<open>LinearRegressionMM\<close>) when the stop-loss
  band is not below \<open>-position_limit\<close>, \<^verbatim>\<open>OTCArbitrage.aggregate_orders_conversions\<close>, and
  \<^verbatim>\<open>BasketTrading.aggregate_basket_orders\<close> when the stop-loss target is within the limit.
\<close>

theorem orders_respect_position_limit:
  fixes s :: "'a MarketMaking_scheme" and a :: "'b OTCArbitrage_scheme" and t :: BasketTrading
  shows
   "(ledger_fresh s \<and> \<bar>position s\<bar> \<le> position_limit s
       \<and> - position_limit s \<le> sl_inventory s \<and> book_signed s \<longrightarrow>
      (\<forall>s1. scratch_under_valued mv s = Inr s1 \<longrightarrow> within_limit s (expected_position s1))
      \<and> (\<forall>s1 s2. scratch_under_valued mv s = Inr s1 \<and> stop_loss iw s1 = Inr s2 \<longrightarrow>
            within_limit s (expected_position s2)
            \<and> within_limit s (expected_position (market_make s2)))
      \<and> (\<forall>s'. aggregate_orders iw s = Inr s' \<longrightarrow>
            within_limit s (position s + total_quantity (orders s'))))
    \<and> (ledger_fresh a \<and> \<bar>position a\<bar> \<le> position_limit a \<longrightarrow>
      (\<forall>xs. within_limit a (expected_position (long_arbitrage_loop xs a)))
      \<and> (\<forall>xs a1. short_arbitrage_loop xs a = Inr a1 \<longrightarrow>
            within_limit a (expected_position a1))
      \<and> (\<forall>a'. aggregate_orders_conversions a = Inr a' \<longrightarrow>
            within_limit a (position a + total_quantity (orders a'))))
    \<and> (ledger_fresh (basket t) \<and> \<bar>position (basket t)\<bar> \<le> position_limit (basket t)
       \<and> \<bar>sl_target t\<bar> \<le> position_limit (basket t)
       \<and> 0 \<le> bid_volume (basket t) \<and> ask_volume (basket t) \<le> 0 \<longrightarrow>
      (\<forall>t'. aggregate_basket_orders t = Inr t' \<longrightarrow>
            within_limit (basket t) (expected_position (basket t'))
            \<and> within_limit (basket t)
                 (position (basket t) + total_quantity (orders (basket t')))))"
proof (intro conjI impI allI)
  fix s1
  assume h: "ledger_fresh s \<and> \<bar>position s\<bar> \<le> position_limit s
       \<and> - position_limit s \<le> sl_inventory s \<and> book_signed s"
    and s1: "scratch_under_valued mv s = Inr s1"
  show "within_limit s (expected_position s1)"
    using scratch_bound [OF s1] h by (simp add: ledger_fresh_def)
next
  fix s1 s2
  assume h: "ledger_fresh s \<and> \<bar>position s\<bar> \<le> position_limit s
       \<and> - position_limit s \<le> sl_inventory s \<and> book_signed s"
    and r: "scratch_under_valued mv s = Inr s1 \<and> stop_loss iw s1 = Inr s2"
  show "within_limit s (expected_position s2)"
    "within_limit s (expected_position (market_make s2))"
    using market_making_pipeline_bound(2,3) [of s mv s1 iw s2] h r by blast+
next
  fix s'
  assume h: "ledger_fresh s \<and> \<bar>position s\<bar> \<le> position_limit s
       \<and> - position_limit s \<le> sl_inventory s \<and> book_signed s"
    and r: "aggregate_orders iw s = Inr s'"
  obtain s1 s2 where "scratch_under_valued False s = Inr s1" "stop_loss iw s1 = Inr s2"
    "s' = market_make s2"
    using r unfolding aggregate_orders_def by (auto simp: ebind_eq_Inr)
  then show "within_limit s (position s + total_quantity (orders s'))"
    using market_making_pipeline_bound(4) [of s False s1 iw s2] h by blast
next
  fix xs
  assume h: "ledger_fresh a \<and> \<bar>position a\<bar> \<le> position_limit a"
  then have "within_limit a (expected_position a)"
    by (auto simp: ledger_fresh_def within_limit_def)
  then show "within_limit a (expected_position (long_arbitrage_loop xs a))"
    using long_arbitrage_loop_inv by blast
next
  fix xs a1
  assume h: "ledger_fresh a \<and> \<bar>position a\<bar> \<le> position_limit a"
    and r: "short_arbitrage_loop xs a = Inr a1"
  from h have "within_limit a (expected_position a)"
    by (auto simp: ledger_fresh_def within_limit_def)
  then show "within_limit a (expected_position a1)"
    using short_arbitrage_loop_inv [OF r] by blast
next
  fix a'
  assume h: "ledger_fresh a \<and> \<bar>position a\<bar> \<le> position_limit a"
    and r: "aggregate_orders_conversions a = Inr a'"
  show "within_limit a (position a + total_quantity (orders a'))"
    using arbitrage_pipeline_bound [OF _ _ r] h by blast
next
  fix t'
  assume h: "ledger_fresh (basket t) \<and> \<bar>position (basket t)\<bar> \<le> position_limit (basket t)
       \<and> \<bar>sl_target t\<bar> \<le> position_limit (basket t)
       \<and> 0 \<le> bid_volume (basket t) \<and> ask_volume (basket t) \<le> 0"
    and r: "aggregate_basket_orders t = Inr t'"
  show "within_limit (basket t) (expected_position (basket t'))"
    "within_limit (basket t) (position (basket t) + total_quantity (orders (basket t')))"
    using basket_pipeline_bound [OF _ _ _ _ _ r] h by blast+
qed

theorem orders_respect_position_limit_witness:
  "(ledger_fresh example_amethysts
      \<and> \<bar>position example_amethysts\<bar> \<le> position_limit example_amethysts
      \<and> - position_limit example_amethysts \<le> sl_inventory example_amethysts
      \<and> book_signed example_amethysts
      \<and> (\<exists>s1 s2. scratch_under_valued False example_amethysts = Inr s1
            \<and> stop_loss True s1 = Inr s2
            \<and> within_limit example_amethysts (expected_position s1)
            \<and> within_limit example_amethysts (expected_position s2))
      \<and> (\<exists>s'. aggregate_orders True example_amethysts = Inr s'
            \<and> total_quantity (orders s') = 3
            \<and> within_limit example_amethysts
                 (position example_amethysts + total_quantity (orders s'))))
   \<and> (ledger_fresh example_orchids
      \<and> \<bar>position example_orchids\<bar> \<le> position_limit example_orchids
      \<and> within_limit example_orchids
           (expected_position (long_arbitrage_loop (asks example_orchids) example_orchids))
      \<and> (\<exists>a1. short_arbitrage_loop (bids example_orchids) example_orchids = Inr a1
            \<and> expected_position a1 = - 10
            \<and> within_limit example_orchids (expected_position a1))
      \<and> (\<exists>a'. aggregate_orders_conversions example_orchids = Inr a'
            \<and> total_quantity (orders a') = 0
            \<and> within_limit example_orchids
                 (position example_orchids + total_quantity (orders a'))))
   \<and> (\<exists>t t'. BasketTrading_init example_state (config_PRODUCT ''GIFT_BASKET'')
                (map (\<lambda>i. (symbols ! i, config_PRODUCT (symbols ! i))) [4 ..< 7])
                config_STRATEGY_GIFT_BASKET = Inr t
            \<and> ledger_fresh (basket t) \<and> \<bar>position (basket t)\<bar> \<le> position_limit (basket t)
            \<and> \<bar>sl_target t\<bar> \<le> position_limit (basket t)
            \<and> 0 \<le> bid_volume (basket t) \<and> ask_volume (basket t) \<le> 0
            \<and> aggregate_basket_orders t = Inr t'
            \<and> total_quantity (orders (basket t')) = 0
            \<and> within_limit (basket t) (expected_position (basket t'))
            \<and> within_limit (basket t)
                 (position (basket t) + total_quantity (orders (basket t'))))"
proof -
  obtain t where init: "BasketTrading_init example_state (config_PRODUCT ''GIFT_BASKET'')
                (map (\<lambda>i. (symbols ! i, config_PRODUCT (symbols ! i))) [4 ..< 7])
                config_STRATEGY_GIFT_BASKET = Inr t"
    and b: "basket t = example_gift_basket" and tg: "sl_target t = 0"
    and p: "premium t = premium_mean t"
    using example_basket_init by auto
  obtain t' where t': "aggregate_basket_orders t = Inr t'"
    and ot': "orders (basket t')
                = [Order ''GIFT_BASKET'' 70383 58, Order ''GIFT_BASKET'' 70387 (- 58)]"
    using example_basket_orders [OF b p] by blast
  have rt: "ledger_fresh (basket t) \<and> \<bar>position (basket t)\<bar> \<le> position_limit (basket t)
       \<and> \<bar>sl_target t\<bar> \<le> position_limit (basket t)
       \<and> 0 \<le> bid_volume (basket t) \<and> ask_volume (basket t) \<le> 0"
    using example_gift_basket_ready by (simp add: b tg)
  obtain s' where s': "aggregate_orders True example_amethysts = Inr s'"
    and os': "orders s' = [Order ''AMETHYSTS'' 10002 (- 3), Order ''AMETHYSTS'' 9998 20,
                           Order ''AMETHYSTS'' 10002 (- 14)]"
    using aggregate_orders_amethysts by blast
  obtain a1 where a1: "short_arbitrage_loop (bids example_orchids) example_orchids = Inr a1"
    and ea1: "expected_position a1 = - 10"
    using short_arbitrage_loop_orchids by blast
  obtain a' where a': "aggregate_orders_conversions example_orchids = Inr a'"
    and oa': "orders a' = [Order ''ORCHIDS'' 1100 (- 5), Order ''ORCHIDS'' 1100 (- 5),
                           Order ''ORCHIDS'' 1086 100, Order ''ORCHIDS'' 1096 (- 90)]"
    using aggregate_orders_conversions_orchids by blast
  note T = orders_respect_position_limit
    [where s = example_amethysts and mv = False and iw = True
       and a = example_orchids and t = t]
  have A: "within_limit example_amethysts
             (expected_position (example_amethysts\<lparr> orders := [Order ''AMETHYSTS'' 10002 (- 3)],
                expected_position := - 3, sum_sell_qty := - 3 \<rparr>))"
    and A': "within_limit example_amethysts
               (position example_amethysts + total_quantity (orders s'))"
    using T example_amethysts_ready scratch_amethysts stop_loss_after_scratch_amethysts s'
    by blast+
  have B: "within_limit example_orchids
           (expected_position (long_arbitrage_loop (asks example_orchids) example_orchids))"
    and B1: "within_limit example_orchids (expected_position a1)"
    and B': "within_limit example_orchids
               (position example_orchids + total_quantity (orders a'))"
    using T example_orchids_ready a1 a' by blast+
  have C: "within_limit (basket t) (expected_position (basket t'))"
    and C': "within_limit (basket t) (position (basket t) + total_quantity (orders (basket t')))"
    using T rt t' by blast+
  have q: "total_quantity (orders s') = 3" "total_quantity (orders a') = 0"
    "total_quantity (orders (basket t')) = 0"
    by (simp_all add: os' oa' ot')
  show ?thesis
    using example_amethysts_ready example_orchids_ready rt init t' s' a1 ea1 a'
      scratch_amethysts stop_loss_after_scratch_amethysts A A' B B1 B' C C' q
    by blast
qed

section \<open>The arbitrage walk\<close>

lemma long_arbitrage_loop_walks:
  "orders (long_arbitrage_loop xs s) =
     orders s @ map (\<lambda>(price, take). Order (symbol s) price take)
       (arbitrage_walk_spec Long
          (\<lambda>price. min_edge s \<le> otc_bid s - real_of_int price - effective_cost_export s)
          (position_limit s) (expected_position s) xs)"
  by (induction xs s rule: long_arbitrage_loop.induct) (simp_all add: Let_def)

text \<open>
  C3. The engine walks the price levels of the chosen side and sizes each take from the
  level it is visiting. The long side does (lemma \<open>long_arbitrage_loop_walks\<close>). The
  short side does not: on a book with the bids 5 at 1100 and 3 at 1099, both clearing the
  threshold, the code sells 5 at 1100 twice, where the walk sells 5 at 1100 and 3 at 1099.
\<close>

theorem short_arbitrage_departs_from_walk:
  "bids example_orchids = [(1100, 5), (1099, 3)]
   \<and> (\<exists>a1. arbitrage_exchange_enter example_orchids = Inr a1
          \<and> orders a1 = [Order ''ORCHIDS'' 1100 (- 5), Order ''ORCHIDS'' 1100 (- 5)])
   \<and> map (\<lambda>(price, take). Order (symbol example_orchids) price take)
        (arbitrage_walk_spec Short
           (\<lambda>price. min_edge example_orchids
                      \<le> real_of_int price - otc_ask example_orchids - cost_import example_orchids)
           (position_limit example_orchids) (expected_position example_orchids)
           (bids example_orchids))
      = [Order ''ORCHIDS'' 1100 (- 5), Order ''ORCHIDS'' 1099 (- 3)]"
  by (simp add: arbitrage_exchange_enter_def getitem_def example_orchids_def)

section \<open>When the tick completes\<close>

lemma fold_max_mem: "fold max xs x \<in> set (x # xs)" for x :: "'a::linorder"
  by (induction xs arbitrary: x) (auto simp: max_def)

lemma fold_min_mem: "fold min xs x \<in> set (x # xs)" for x :: "'a::linorder"
  by (induction xs arbitrary: x) (auto simp: min_def)

lemma py_max_total: "xs \<noteq> [] \<Longrightarrow> \<exists>m. py_max xs = Inr m \<and> m \<in> set xs"
  using fold_max_mem by (cases xs) auto

lemma py_min_total: "xs \<noteq> [] \<Longrightarrow> \<exists>m. py_min xs = Inr m \<and> m \<in> set xs"
  using fold_min_mem by (cases xs) auto

lemma getitem_total: "k \<in> fst ` set d \<Longrightarrow> \<exists>v. getitem d k = Inr v"
  by (cases "map_of d k") (auto simp: getitem_def map_of_eq_None_iff)

lemma Strategy_init_total:
  assumes "book_ok state (SYMBOL pc)"
  shows "\<exists>s. Strategy_init state pc = Inr s \<and> quotes_in_book s \<and> ledger_fresh s
             \<and> symbol s = SYMBOL pc \<and> position_limit s = POSITION_LIMIT pc"
proof -
  obtain od where od: "order_depths state (SYMBOL pc) = Some od"
    and ne: "buy_orders od \<noteq> []" "sell_orders od \<noteq> []"
    and vol: "sum_list (map snd (buy_orders od)) \<noteq> 0" "sum_list (map snd (sell_orders od)) \<noteq> 0"
    using assms by (auto simp: book_ok_def split: option.splits)
  obtain bb where bb: "py_max (map fst (buy_orders od)) = Inr bb"
      "bb \<in> fst ` set (buy_orders od)"
    using py_max_total [of "map fst (buy_orders od)"] ne by auto
  obtain ba where ba: "py_min (map fst (sell_orders od)) = Inr ba"
      "ba \<in> fst ` set (sell_orders od)"
    using py_min_total [of "map fst (sell_orders od)"] ne by auto
  obtain wb where wb: "py_min (map fst (buy_orders od)) = Inr wb"
    using py_min_total [of "map fst (buy_orders od)"] ne by auto
  obtain wa where wa: "py_max (map fst (sell_orders od)) = Inr wa"
    using py_max_total [of "map fst (sell_orders od)"] ne by auto
  show ?thesis
    unfolding Strategy_init_def Let_def
    using vol bb(2) ba(2)
    by (simp add: od bb(1) ba(1) wb wa truediv_def quotes_in_book_def ledger_fresh_def)
qed

lemma quotes_in_book_frame: "same_frame s s' \<Longrightarrow> quotes_in_book s' = quotes_in_book s"
  by (simp add: same_frame_def quotes_in_book_def)

lemma MarketMaking_init_total:
  assumes "book_ok state (SYMBOL pc)"
  shows "\<exists>s. MarketMaking_init state pc sc = Inr s \<and> quotes_in_book s \<and> ledger_fresh s
             \<and> symbol s = SYMBOL pc \<and> position_limit s = POSITION_LIMIT pc"
proof -
  obtain s0 where s0: "Strategy_init state pc = Inr s0" "quotes_in_book s0" "ledger_fresh s0"
    "symbol s0 = SYMBOL pc" "position_limit s0 = POSITION_LIMIT pc"
    using Strategy_init_total [OF assms] by blast
  show ?thesis
    unfolding MarketMaking_init_def
    using s0(2-5)
    by (cases s0) (simp add: s0(1) quotes_in_book_def ledger_fresh_def Strategy.defs)
qed

lemma LinearRegressionMM_init_total:
  assumes "book_ok state (SYMBOL pc)"
  shows "\<exists>s. LinearRegressionMM_init state pc sc = Inr s \<and> quotes_in_book s \<and> ledger_fresh s
             \<and> symbol s = SYMBOL pc \<and> position_limit s = POSITION_LIMIT pc
             \<and> min_window_size s = MIN_WINDOW_SIZE sc \<and> max_window_size s = MAX_WINDOW_SIZE sc"
proof -
  obtain s0 where s0: "MarketMaking_init state pc sc = Inr s0" "quotes_in_book s0"
    "ledger_fresh s0" "symbol s0 = SYMBOL pc" "position_limit s0 = POSITION_LIMIT pc"
    using MarketMaking_init_total [OF assms] by blast
  show ?thesis
    unfolding LinearRegressionMM_init_def
    using s0(2-5)
    by (cases s0)
       (simp add: s0(1) quotes_in_book_def ledger_fresh_def MarketMaking.defs
          LinearRegressionMM.defs)
qed

lemma scratch_under_valued_total:
  assumes "quotes_in_book s"
  shows "\<exists>s1. scratch_under_valued mv s = Inr s1 \<and> quotes_in_book s1"
proof -
  obtain qb qa where q: "getitem (bids s) (best_bid s) = Inr qb"
      "getitem (asks s) (best_ask s) = Inr qa"
    using assms getitem_total unfolding quotes_in_book_def by metis
  have "\<exists>s1. scratch_under_valued mv s = Inr s1"
    unfolding scratch_under_valued_def Let_def by (simp add: q)
  then obtain s1 where s1: "scratch_under_valued mv s = Inr s1" ..
  then have "same_frame s s1" using scratch_effect by blast
  then show ?thesis using s1 assms quotes_in_book_frame by blast
qed

lemma stop_loss_total:
  assumes "quotes_in_book s"
  shows "\<exists>s2. stop_loss iw s = Inr s2 \<and> quotes_in_book s2"
proof -
  obtain qb qa where q: "getitem (bids s) (best_bid s) = Inr qb"
      "getitem (asks s) (best_ask s) = Inr qa"
    using assms getitem_total unfolding quotes_in_book_def by metis
  have "\<exists>s2. stop_loss iw s = Inr s2"
    unfolding stop_loss_def Let_def by (simp add: q)
  then obtain s2 where s2: "stop_loss iw s = Inr s2" ..
  then have "same_frame s s2" using stop_loss_effect by blast
  then show ?thesis using s2 assms quotes_in_book_frame by blast
qed

lemma aggregate_orders_total:
  assumes "quotes_in_book s"
  shows "\<exists>s'. aggregate_orders iw s = Inr s'"
proof -
  obtain s1 where s1: "scratch_under_valued False s = Inr s1" "quotes_in_book s1"
    using scratch_under_valued_total [OF assms] by blast
  obtain s2 where s2: "stop_loss iw s1 = Inr s2"
    using stop_loss_total [OF s1(2)] by blast
  show ?thesis unfolding aggregate_orders_def by (simp add: s1(1) s2)
qed

lemma rounded_squares_nonzero:
  assumes "x1 \<in> set xs" "x2 \<in> set xs" "x1 \<noteq> x2"
  shows "fsum (map (\<lambda>xi. let d = fl (xi - c) in fl (d * d)) xs) \<noteq> 0"
proof
  assume "fsum (map (\<lambda>xi. let d = fl (xi - c) in fl (d * d)) xs) = 0"
  then have z: "sum_list (map (\<lambda>xi. fl (fl (xi - c) * fl (xi - c))) xs) = 0"
    by (simp add: fsum_def Let_def)
  have "\<forall>v \<in> set (map (\<lambda>xi. fl (fl (xi - c) * fl (xi - c))) xs). v = 0"
    using z by (subst (asm) sum_list_nonneg_eq_0_iff) (auto intro: fl_nonneg)
  then have "\<forall>x \<in> set xs. x = c" by auto
  then show False using assms by metis
qed

lemma linear_regression_total:
  assumes "length ys = length xs" "2 \<le> length xs"
    "x1 \<in> set xs" "x2 \<in> set xs" "x1 \<noteq> x2"
  shows "\<exists>slope intercept. linear_regression xs ys = Inr (slope, intercept)"
  using assms(1,2) rounded_squares_nonzero [OF assms(3-5)]
  unfolding linear_regression_def Let_def by simp

lemma predict_price_total:
  assumes "2 \<le> min_window_size s"
  shows "\<exists>y. predict_price h s = Inr (s\<lparr> fair_value := y \<rparr>)"
proof (cases "min_window_size s \<le> int (length h)")
  case False
  then have "predict_price h s = Inr (s\<lparr> fair_value := mid_vwap s \<rparr>)"
    unfolding predict_price_def Let_def by simp
  then show ?thesis by (intro exI)
next
  case True
  define t where "t = py_int (fl (real_of_int (timestamp s) / 100))"
  define xs where "xs = map (\<lambda>i. real_of_int (100 * i)) [t - int (length h) + 1 .. t]"
  have two: "2 \<le> length h" using True assms by linarith
  have len: "length xs = length h" by (simp add: xs_def)
  have x1: "real_of_int (100 * t) \<in> set xs"
    unfolding xs_def using two by auto
  have x2: "real_of_int (100 * (t - 1)) \<in> set xs"
    unfolding xs_def using two by (auto intro!: image_eqI [where x = "t - 1"])
  have "real_of_int (100 * t) \<noteq> real_of_int (100 * (t - 1))" by simp
  then obtain slope intercept where "linear_regression xs h = Inr (slope, intercept)"
    using linear_regression_total [of h xs, OF _ _ x1 x2] len two by auto
  then have "predict_price h s = Inr (s\<lparr> fair_value :=
      fl (fl (slope * real_of_int (timestamp s + 100 * predict_shift s)) + intercept) \<rparr>)"
    unfolding predict_price_def Let_def t_def [symmetric] xs_def [symmetric]
    using True by simp
  then show ?thesis by (intro exI)
qed

lemma popleft_while_total: "0 < m \<Longrightarrow> \<exists>h'. popleft_while m h = Inr h'"
  by (induction h) auto

lemma getitem_setitem: "getitem (setitem d k v) k = Inr v"
  by (induction d) (auto simp: getitem_def)

lemma list_ex_setitem: "v \<noteq> [] \<Longrightarrow> list_ex (\<lambda>(k, v). v \<noteq> []) (setitem d k v)"
  by (induction d) auto

lemma store_data_total:
  assumes "getitem data k = Inr h" "0 < m"
  shows "\<exists>data2 hist. store_data k v m data = Inr data2 \<and> getitem data2 k = Inr hist
            \<and> list_ex (\<lambda>(k, v). v \<noteq> []) data2"
proof -
  obtain h' where h': "popleft_while m h = Inr h'"
    using popleft_while_total [OF assms(2)] by blast
  have "store_data k v m data = Inr (setitem (setitem data k h') k (h' @ [v]))"
    unfolding store_data_def using assms by (simp add: h' getitem_setitem)
  then show ?thesis
    using getitem_setitem list_ex_setitem [of "h' @ [v]"] by fastforce
qed

lemma OTCArbitrage_init_total:
  assumes "book_ok state (SYMBOL pc)" "COST_STORING pc = Some c"
    "conversionObservations state (SYMBOL pc) = Some ob"
  shows "\<exists>a. OTCArbitrage_init state pc sc = Inr a \<and> quotes_in_book a \<and> ledger_fresh a
             \<and> position_limit a = POSITION_LIMIT pc"
proof -
  obtain s0 where s0: "Strategy_init state pc = Inr s0" "quotes_in_book s0" "ledger_fresh s0"
    "symbol s0 = SYMBOL pc" "position_limit s0 = POSITION_LIMIT pc"
    using Strategy_init_total [OF assms(1)] by blast
  show ?thesis
    unfolding OTCArbitrage_init_def Let_def
    using s0(2-5) assms(2,3)
    by (cases s0) (simp add: s0(1) quotes_in_book_def ledger_fresh_def Strategy.defs)
qed

lemma short_arbitrage_loop_total:
  assumes "quotes_in_book s"
  shows "\<exists>s1. short_arbitrage_loop xs s = Inr s1"
  using assms
proof (induction xs arbitrary: s)
  case Nil
  then show ?case by simp
next
  case (Cons x xs)
  obtain price quantity where x: "x = (price, quantity)" by (cases x)
  obtain v where g: "getitem (bids s) (best_bid s) = Inr v"
    using Cons.prems getitem_total unfolding quotes_in_book_def by metis
  define q where "q = min (max (- v) (- position_limit s - min (expected_position s) 0)) 0"
  define s' where "s' = s\<lparr> orders := orders s @ [Order (symbol s) (best_bid s) q],
                             expected_position := expected_position s + q,
                             sum_sell_qty := sum_sell_qty s + q \<rparr>"
  have "quotes_in_book s'" using Cons.prems by (simp add: s'_def quotes_in_book_def)
  then obtain s1 where s1: "short_arbitrage_loop xs s' = Inr s1"
    using Cons.IH by blast
  show ?case
  proof (cases "min_edge s \<le> real_of_int price - otc_ask s - cost_import s")
    case False
    then show ?thesis by (simp add: x)
  next
    case True
    then have "short_arbitrage_loop (x # xs) s = short_arbitrage_loop xs s'"
      using g by (simp add: x Let_def q_def s'_def)
    then show ?thesis using s1 by simp
  qed
qed

lemma arbitrage_exchange_enter_total:
  assumes "quotes_in_book s"
  shows "\<exists>s1. arbitrage_exchange_enter s = Inr s1"
proof -
  obtain s1 where "short_arbitrage_loop (bids s) s = Inr s1"
    using short_arbitrage_loop_total [OF assms] by blast
  then show ?thesis
    unfolding arbitrage_exchange_enter_def Let_def by simp
qed

lemma aggregate_orders_conversions_total:
  assumes "quotes_in_book s"
  shows "\<exists>s'. aggregate_orders_conversions s = Inr s'"
proof -
  obtain s1 where "arbitrage_exchange_enter s = Inr s1"
    using arbitrage_exchange_enter_total [OF assms] by blast
  then show ?thesis unfolding aggregate_orders_conversions_def by simp
qed

lemma aggregate_basket_orders_total:
  assumes "quotes_in_book (basket t)"
  shows "\<exists>t'. aggregate_basket_orders t = Inr t'"
proof -
  have "quotes_in_book (basket (calculate_fair_value t))"
    using assms quotes_in_book_frame [OF calculate_fair_value_frame(1)] by simp
  then obtain b1 where "scratch_under_valued True (basket (calculate_fair_value t)) = Inr b1"
    using scratch_under_valued_total by blast
  then show ?thesis unfolding aggregate_basket_orders_def Let_def by simp
qed

lemma configured_constituents:
  "map (\<lambda>i. (symbols ! i, config_PRODUCT (symbols ! i))) [4 ..< 7]
     = [(''CHOCOLATE'', config_PRODUCT ''CHOCOLATE''),
        (''STRAWBERRIES'', config_PRODUCT ''STRAWBERRIES''),
        (''ROSES'', config_PRODUCT ''ROSES'')]"
  by (simp add: symbols_def upt_rec numeral_nat)

lemma config_PRODUCT_simps [simp]:
  "SYMBOL (config_PRODUCT s) = s" "PRODUCT (config_PRODUCT s) = s"
  by (simp_all add: config_PRODUCT_def)

lemma BasketTrading_init_total:
  assumes "book_ok state ''GIFT_BASKET''" "book_ok state ''CHOCOLATE''"
    "book_ok state ''STRAWBERRIES''" "book_ok state ''ROSES''"
  shows "\<exists>t. BasketTrading_init state (config_PRODUCT ''GIFT_BASKET'')
               (map (\<lambda>i. (symbols ! i, config_PRODUCT (symbols ! i))) [4 ..< 7])
               config_STRATEGY_GIFT_BASKET = Inr t
            \<and> quotes_in_book (basket t)"
proof -
  obtain b where b: "MarketMaking_init state (config_PRODUCT ''GIFT_BASKET'')
                       config_STRATEGY_GIFT_BASKET = Inr b" "quotes_in_book b"
    using MarketMaking_init_total [of state "config_PRODUCT ''GIFT_BASKET''"] assms(1)
    by auto
  obtain c where c: "Strategy_init state (config_PRODUCT ''CHOCOLATE'') = Inr c"
    "position_limit c = POSITION_LIMIT (config_PRODUCT ''CHOCOLATE'')"
    using Strategy_init_total [of state "config_PRODUCT ''CHOCOLATE''"] assms(2) by auto
  obtain s where s: "Strategy_init state (config_PRODUCT ''STRAWBERRIES'') = Inr s"
    "position_limit s = POSITION_LIMIT (config_PRODUCT ''STRAWBERRIES'')"
    using Strategy_init_total [of state "config_PRODUCT ''STRAWBERRIES''"] assms(3) by auto
  obtain r where r: "Strategy_init state (config_PRODUCT ''ROSES'') = Inr r"
    "position_limit r = POSITION_LIMIT (config_PRODUCT ''ROSES'')"
    using Strategy_init_total [of state "config_PRODUCT ''ROSES''"] assms(4) by auto
  have per: "PER_BASKET (config_PRODUCT ''CHOCOLATE'') = Some 4"
    "PER_BASKET (config_PRODUCT ''STRAWBERRIES'') = Some 6"
    "PER_BASKET (config_PRODUCT ''ROSES'') = Some 1"
    by (simp_all add: config_PRODUCT_def)
  have std: "PREMIUM_STD config_STRATEGY_GIFT_BASKET \<noteq> 0"
    by (simp add: config_STRATEGY_GIFT_BASKET_def)
  show ?thesis
    unfolding BasketTrading_init_def configured_constituents Let_def
    using b(2) std
    by (simp add: b(1) c(1) s(1) r(1) per getitem_def truediv_def quotes_in_book_def)
qed

lemma symbols_nth:
  "symbols ! 0 = ''AMETHYSTS''" "symbols ! 1 = ''STARFRUIT''" "symbols ! 2 = ''ORCHIDS''"
  "symbols ! 3 = ''GIFT_BASKET''"
  by (simp_all add: symbols_def)

lemma run_returns:
  assumes books: "list_all (book_ok state) symbols"
    and obs: "conversionObservations state ''ORCHIDS'' = Some ob"
    and restore: "restore_data parse (state_timestamp state) (traderData state) data = Inr data1"
    and hist: "getitem data1 ''STARFRUIT'' = Inr h"
  shows "\<exists>out conv data2. run parse encode data state = Inr ((out, conv, encode data2), data2)
           \<and> map fst out = [''AMETHYSTS'', ''STARFRUIT'', ''ORCHIDS'', ''GIFT_BASKET'']
           \<and> list_ex (\<lambda>(k, v). v \<noteq> []) data2"
proof -
  have bk: "book_ok state ''AMETHYSTS''" "book_ok state ''STARFRUIT''"
    "book_ok state ''ORCHIDS''" "book_ok state ''GIFT_BASKET''" "book_ok state ''CHOCOLATE''"
    "book_ok state ''STRAWBERRIES''" "book_ok state ''ROSES''"
    using books by (simp_all add: symbols_def)
  obtain a where a: "MarketMaking_init state (config_PRODUCT ''AMETHYSTS'')
                       config_STRATEGY_AMETHYSTS = Inr a" "quotes_in_book a"
    using MarketMaking_init_total [of state "config_PRODUCT ''AMETHYSTS''"] bk(1) by auto
  obtain a' where a': "aggregate_orders True a = Inr a'"
    using aggregate_orders_total [OF a(2)] by blast
  obtain f where f: "LinearRegressionMM_init state (config_PRODUCT ''STARFRUIT'')
                       config_STRATEGY_STARFRUIT = Inr f" "quotes_in_book f"
    "symbol f = ''STARFRUIT''" "min_window_size f = 5" "max_window_size f = 10"
    using LinearRegressionMM_init_total
      [of state "config_PRODUCT ''STARFRUIT''" config_STRATEGY_STARFRUIT] bk(2)
    by (auto simp: config_STRATEGY_STARFRUIT_def)
  obtain data2 hist where d2: "store_data ''STARFRUIT'' (mid_vwap f) 10 data1 = Inr data2"
    "getitem data2 ''STARFRUIT'' = Inr hist" "list_ex (\<lambda>(k, v). v \<noteq> []) data2"
    using store_data_total [OF hist, where m = 10 and v = "mid_vwap f"] by auto
  obtain y where y: "predict_price hist f = Inr (f\<lparr> fair_value := y \<rparr>)"
    using predict_price_total [of f hist] f(4) by auto
  have "quotes_in_book (f\<lparr> fair_value := y \<rparr>)"
    using f(2) by (simp add: quotes_in_book_def)
  then obtain f' where f': "aggregate_orders True (f\<lparr> fair_value := y \<rparr>) = Inr f'"
    using aggregate_orders_total by blast
  obtain c where c: "OTCArbitrage_init state (config_PRODUCT ''ORCHIDS'')
                       config_STRATEGY_ORCHIDS = Inr c" "quotes_in_book c"
    using OTCArbitrage_init_total [of state "config_PRODUCT ''ORCHIDS''" "1 / 10" ob]
      bk(3) obs
    by (auto simp: config_PRODUCT_def)
  obtain c' where c': "aggregate_orders_conversions c = Inr c'"
    using aggregate_orders_conversions_total [OF c(2)] by blast
  obtain t where t: "BasketTrading_init state (config_PRODUCT ''GIFT_BASKET'')
               (map (\<lambda>i. (symbols ! i, config_PRODUCT (symbols ! i))) [4 ..< 7])
               config_STRATEGY_GIFT_BASKET = Inr t" "quotes_in_book (basket t)"
    using BasketTrading_init_total [OF bk(4-7)] by blast
  obtain t' where t': "aggregate_basket_orders t = Inr t'"
    using aggregate_basket_orders_total [OF t(2)] by blast
  have "run parse encode data state =
          Inr (([(''AMETHYSTS'', orders a'), (''STARFRUIT'', orders f'),
                 (''ORCHIDS'', orders c'), (''GIFT_BASKET'', orders (basket t'))],
                conversions c', encode data2), data2)"
    unfolding run_def configured_constituents symbols_nth
    by (simp add: restore a(1) a' f(1,3,5) d2(1,2) y f' c(1) c'
        t(1) [unfolded configured_constituents] t')
  then show ?thesis using d2(3) by simp
qed

lemma run_raises_with_restore:
  "restore_data parse (state_timestamp state) (traderData state) data = Inl e
     \<Longrightarrow> run parse encode data state = Inl e"
  unfolding run_def by simp

lemma Strategy_init_empty_side:
  assumes "order_depths state (SYMBOL pc) = Some od" "buy_orders od = [] \<or> sell_orders od = []"
  shows "Strategy_init state pc = Inl ValueError"
proof (cases "buy_orders od")
  case Nil
  then show ?thesis unfolding Strategy_init_def Let_def by (simp add: assms(1))
next
  case (Cons b bs)
  then have "sell_orders od = []" using assms(2) by simp
  then show ?thesis unfolding Strategy_init_def Let_def by (simp add: assms(1) Cons)
qed

text \<open>
  C2 (amended). For every input state in which each of the seven symbols has an order
  book with a non-empty bid side and a non-empty ask side of non-zero total volume, in
  which ORCHIDS has a conversion observation, and for which \<^verbatim>\<open>restore_data\<close> returns
  rolling data that holds a STARFRUIT history, \<^verbatim>\<open>Trader.run\<close> returns an order map for the
  four traded products, a conversion number and the carried state. It does not do so for
  every input state: when the AMETHYSTS book has an empty bid or ask side,
  \<^verbatim>\<open>Strategy.__init__\<close> raises \<^verbatim>\<open>ValueError\<close> and the tick does not complete.
\<close>

theorem run_returns_on_two_sided_books:
  "(list_all (book_ok state) symbols
      \<and> conversionObservations state ''ORCHIDS'' \<noteq> None
      \<and> restore_data parse (state_timestamp state) (traderData state) data = Inr data1
      \<and> getitem data1 ''STARFRUIT'' \<noteq> Inl KeyError
     \<longrightarrow> (\<exists>out conv data2.
            run parse encode data state = Inr ((out, conv, encode data2), data2)
            \<and> map fst out = [''AMETHYSTS'', ''STARFRUIT'', ''ORCHIDS'', ''GIFT_BASKET'']))
   \<and> (restore_data parse (state_timestamp state) (traderData state) data = Inr data1
      \<and> order_depths state ''AMETHYSTS'' = Some od
      \<and> (buy_orders od = [] \<or> sell_orders od = [])
     \<longrightarrow> run parse encode data state = Inl ValueError)"
proof (intro conjI impI)
  assume h: "list_all (book_ok state) symbols
      \<and> conversionObservations state ''ORCHIDS'' \<noteq> None
      \<and> restore_data parse (state_timestamp state) (traderData state) data = Inr data1
      \<and> getitem data1 ''STARFRUIT'' \<noteq> Inl KeyError"
  then obtain ob where ob: "conversionObservations state ''ORCHIDS'' = Some ob" by auto
  obtain h0 where h0: "getitem data1 ''STARFRUIT'' = Inr h0"
    using h by (cases "map_of data1 ''STARFRUIT''") (auto simp: getitem_def)
  show "\<exists>out conv data2.
            run parse encode data state = Inr ((out, conv, encode data2), data2)
            \<and> map fst out = [''AMETHYSTS'', ''STARFRUIT'', ''ORCHIDS'', ''GIFT_BASKET'']"
  proof -
    have b: "list_all (book_ok state) symbols"
      and r: "restore_data parse (state_timestamp state) (traderData state) data = Inr data1"
      using h by simp_all
    obtain out conv data2 where
      "run parse encode data state = Inr ((out, conv, encode data2), data2)"
      "map fst out = [''AMETHYSTS'', ''STARFRUIT'', ''ORCHIDS'', ''GIFT_BASKET'']"
      using run_returns [OF b ob r h0, of encode] by (elim exE conjE)
    then show ?thesis by (intro exI conjI)
  qed
next
  assume h: "restore_data parse (state_timestamp state) (traderData state) data = Inr data1
      \<and> order_depths state ''AMETHYSTS'' = Some od
      \<and> (buy_orders od = [] \<or> sell_orders od = [])"
  then have "Strategy_init state (config_PRODUCT ''AMETHYSTS'') = Inl ValueError"
    using Strategy_init_empty_side [of state "config_PRODUCT ''AMETHYSTS''" od] by simp
  then show "run parse encode data state = Inl ValueError"
    unfolding run_def symbols_nth MarketMaking_init_def using h by simp
qed

lemma example_state_books: "list_all (book_ok example_state) symbols"
  by (simp add: book_ok_def example_state_def symbols_def)

lemma restore_data_without_history:
  "restore_data parse ts td [(''STARFRUIT'', [])] = Inr [(''STARFRUIT'', [])]"
  by (simp add: restore_data_def)

text \<open>
  Against C2 as stated: on the example tick with the bids of AMETHYSTS removed,
  \<^verbatim>\<open>Trader.run\<close> raises \<^verbatim>\<open>ValueError\<close> instead of returning.
\<close>

theorem run_raises_on_empty_side:
  "run example_parse example_encode [(''STARFRUIT'', [])] empty_bid_state = Inl ValueError"
proof -
  have "Strategy_init empty_bid_state (config_PRODUCT ''AMETHYSTS'') = Inl ValueError"
    by (rule Strategy_init_empty_side [where od = "\<lparr> buy_orders = [],
          sell_orders = [(10004, - 4), (10005, - 6)] \<rparr>"])
       (simp_all add: empty_bid_state_def)
  then show ?thesis
    unfolding run_def symbols_nth MarketMaking_init_def
    by (simp add: restore_data_without_history)
qed

theorem run_returns_on_two_sided_books_witness:
  "list_all (book_ok example_state) symbols
   \<and> conversionObservations example_state ''ORCHIDS'' \<noteq> None
   \<and> restore_data example_parse (state_timestamp example_state) (traderData example_state)
        [(''STARFRUIT'', [])] = Inr [(''STARFRUIT'', [])]
   \<and> getitem [(''STARFRUIT'', [] :: real list)] ''STARFRUIT'' \<noteq> Inl KeyError
   \<and> (\<exists>out conv data2.
         run example_parse example_encode [(''STARFRUIT'', [])] example_state
           = Inr ((out, conv, example_encode data2), data2)
         \<and> map fst out = [''AMETHYSTS'', ''STARFRUIT'', ''ORCHIDS'', ''GIFT_BASKET''])
   \<and> order_depths empty_bid_state ''AMETHYSTS''
        = Some \<lparr> buy_orders = [], sell_orders = [(10004, - 4), (10005, - 6)] \<rparr>
   \<and> run example_parse example_encode [(''STARFRUIT'', [])] empty_bid_state = Inl ValueError"
proof -
  have o: "conversionObservations example_state ''ORCHIDS'' \<noteq> None"
    by (simp add: example_state_def)
  have g: "getitem [(''STARFRUIT'', [] :: real list)] ''STARFRUIT'' \<noteq> Inl KeyError"
    by (simp add: getitem_def)
  have e: "order_depths empty_bid_state ''AMETHYSTS''
        = Some \<lparr> buy_orders = [], sell_orders = [(10004, - 4), (10005, - 6)] \<rparr>"
    by (simp add: empty_bid_state_def)
  note T1 = run_returns_on_two_sided_books
    [where state = example_state and parse = example_parse and encode = example_encode
       and data = "[(''STARFRUIT'', [])]" and ?data1.0 = "[(''STARFRUIT'', [])]"]
  note T2 = run_returns_on_two_sided_books
    [where state = empty_bid_state and parse = example_parse and encode = example_encode
       and data = "[(''STARFRUIT'', [])]" and ?data1.0 = "[(''STARFRUIT'', [])]"
       and od = "\<lparr> buy_orders = [], sell_orders = [(10004, - 4), (10005, - 6)] \<rparr>"]
  have r1: "\<exists>out conv data2.
         run example_parse example_encode [(''STARFRUIT'', [])] example_state
           = Inr ((out, conv, example_encode data2), data2)
         \<and> map fst out = [''AMETHYSTS'', ''STARFRUIT'', ''ORCHIDS'', ''GIFT_BASKET'']"
    using T1 example_state_books o restore_data_without_history g by blast
  have r2: "run example_parse example_encode [(''STARFRUIT'', [])] empty_bid_state
              = Inl ValueError"
    using T2 restore_data_without_history e by simp
  show ?thesis
    using example_state_books o restore_data_without_history g r1 e r2 by blast
qed

section \<open>Carried state\<close>

lemma lost_data_state_simps:
  "state_timestamp lost_data_state = 400" "traderData lost_data_state = []"
  by (simp_all add: lost_data_state_def example_state_def)

lemma jsonpickle_decode_empty: "jsonpickle_decode parse [] = Inl JSONDecodeError"
  by (simp add: jsonpickle_decode_def)

text \<open>
  C6. A tick with timestamp at least 100 whose \<^verbatim>\<open>traderData\<close> is empty or does not decode
  is to be recovered from locally, with empty rolling history, and its orders are still to
  be generated. The docstring of \<^verbatim>\<open>restore_data\<close> says the same of the code: it restores
  ``if loss in data is found'', ``only if any empty data''. The guard it computes is the
  opposite, \<^verbatim>\<open>any([bool(v) for v in self.data.values()])\<close>, true when a history in memory
  is \<^emph>\<open>not\<close> empty, and the call of the decoder is not guarded. So at timestamp 400, with one
  price in the history in memory and an empty \<^verbatim>\<open>traderData\<close>, \<^verbatim>\<open>restore_data\<close> decodes,
  and \<^verbatim>\<open>Trader.run\<close> raises the decoder's exception instead of returning orders.
\<close>

theorem run_raises_on_lost_state:
  "state_timestamp lost_data_state = 400 \<and> traderData lost_data_state = []
   \<and> run example_parse example_encode [(''STARFRUIT'', [5000])] lost_data_state
       = Inl JSONDecodeError"
proof -
  have "restore_data example_parse (state_timestamp lost_data_state)
          (traderData lost_data_state) [(''STARFRUIT'', [5000])] = Inl JSONDecodeError"
    by (simp add: restore_data_def lost_data_state_simps jsonpickle_decode_empty)
  then have "run example_parse example_encode [(''STARFRUIT'', [5000])] lost_data_state
               = Inl JSONDecodeError"
    by (rule run_raises_with_restore)
  then show ?thesis by (simp add: lost_data_state_simps)
qed































end
